theory Spec2Isabelle
  imports Main "HOL-Library.Word" "HOL-Library.Sublist"
begin

section \<open>Strings\<close>

text \<open>
  A JavaScript string is a sequence of 16-bit UTF-16 code units; \<open>length\<close>,
  \<open>slice\<close>, \<open>substring\<close> and the regular expressions of the source (none has the
  \<open>u\<close> flag) all count code units.  The embedding \<open>js\<close> writes a Latin-1 literal.
\<close>

type_synonym code_unit = "16 word"
type_synonym jsstring = "code_unit list"

definition js :: "string \<Rightarrow> jsstring" where
  "js s = map (\<lambda>c. of_nat (of_char c)) s"

text \<open>ECMAScript \<open>LineTerminator\<close>: the code units that \<open>.\<close> does not match.\<close>

definition isLineTerminator :: "code_unit \<Rightarrow> bool" where
  "isLineTerminator c = (c \<in> {0x000A, 0x000D, 0x2028, 0x2029})"

text \<open>ECMAScript \<open>WhiteSpace\<close>: TAB, VT, FF, ZWNBSP and the category Zs.\<close>

definition isWhiteSpace :: "code_unit \<Rightarrow> bool" where
  "isWhiteSpace c = (c \<in> {0x0009, 0x000B, 0x000C, 0x0020, 0x00A0, 0x1680,
      0x2000, 0x2001, 0x2002, 0x2003, 0x2004, 0x2005, 0x2006, 0x2007, 0x2008, 0x2009, 0x200A,
      0x202F, 0x205F, 0x3000, 0xFEFF})"

text \<open>What \<open>String.prototype.trim\<close> strips and what \<open>\s\<close> matches.\<close>

definition isSpace :: "code_unit \<Rightarrow> bool" where
  "isSpace c = (isWhiteSpace c \<or> isLineTerminator c)"

definition trimStart :: "jsstring \<Rightarrow> jsstring" where
  "trimStart s = dropWhile isSpace s"

definition trimEnd :: "jsstring \<Rightarrow> jsstring" where
  "trimEnd s = rev (dropWhile isSpace (rev s))"

definition trim :: "jsstring \<Rightarrow> jsstring" where
  "trim s = trimEnd (trimStart s)"

text \<open>\<open>s.substring(0, n)\<close> and \<open>s.slice(a, b)\<close> for \<open>a \<le> b\<close>, \<open>s.slice(a)\<close>,
  \<open>s.startsWith(p)\<close>.\<close>

definition substring0 :: "jsstring \<Rightarrow> nat \<Rightarrow> jsstring" where
  "substring0 s n = take n s"

definition slice_js :: "'a list \<Rightarrow> nat \<Rightarrow> nat \<Rightarrow> 'a list" where
  "slice_js s a b = take (b - a) (drop a s)"

definition sliceFrom :: "jsstring \<Rightarrow> nat \<Rightarrow> jsstring" where
  "sliceFrom s a = drop a s"

definition startsWith :: "jsstring \<Rightarrow> jsstring \<Rightarrow> bool" where
  "startsWith s p = (take (length p) s = p)"

section \<open>Rich text runs\<close>

record Annotations =
  a_bold :: bool
  a_italic :: bool
  a_strikethrough :: bool
  a_underline :: bool
  a_code :: bool
  a_color :: jsstring

record RichText =
  content :: jsstring
  link :: "jsstring option"
  annotations :: Annotations

text \<open>The optional second argument of \<open>richText\<close>; every field may be absent.\<close>

record Options =
  o_bold :: "bool option"
  o_italic :: "bool option"
  o_strikethrough :: "bool option"
  o_underline :: "bool option"
  o_code :: "bool option"
  o_color :: "jsstring option"
  o_link :: "jsstring option"

definition noOptions :: Options where
  "noOptions = \<lparr>o_bold = None, o_italic = None, o_strikethrough = None, o_underline = None,
     o_code = None, o_color = None, o_link = None\<rparr>"

text \<open>\<open>options?.f || false\<close>, \<open>options?.color || 'default'\<close> and the truthiness of
  \<open>options?.link\<close>: an absent field and an empty string are both falsy.\<close>

definition flag :: "Options option \<Rightarrow> (Options \<Rightarrow> bool option) \<Rightarrow> bool" where
  "flag options f = (case options of None \<Rightarrow> False
     | Some opts \<Rightarrow> (case f opts of None \<Rightarrow> False | Some b \<Rightarrow> b))"

definition truthyString :: "Options option \<Rightarrow> (Options \<Rightarrow> jsstring option) \<Rightarrow> jsstring option" where
  "truthyString options f = (case options of None \<Rightarrow> None
     | Some opts \<Rightarrow> (case f opts of None \<Rightarrow> None | Some s \<Rightarrow> if s = [] then None else Some s))"

definition defaultAnnotations :: Annotations where
  "defaultAnnotations = \<lparr>a_bold = False, a_italic = False, a_strikethrough = False,
     a_underline = False, a_code = False, a_color = js ''default''\<rparr>"

definition richText :: "jsstring \<Rightarrow> Options option \<Rightarrow> RichText" where
  "richText str options =
    (let cleanContent = trim str;
         truncatedContent =
           (if length cleanContent > 2000 then substring0 cleanContent 1997 @ js ''...''
            else cleanContent)
     in if truncatedContent = []
        then \<lparr>content = js '' '', link = None, annotations = defaultAnnotations\<rparr>
        else \<lparr>content = truncatedContent,
              link = truthyString options o_link,
              annotations = \<lparr>a_bold = flag options o_bold,
                a_italic = flag options o_italic,
                a_strikethrough = flag options o_strikethrough,
                a_underline = flag options o_underline,
                a_code = flag options o_code,
                a_color = (case truthyString options o_color of None \<Rightarrow> js ''default''
                           | Some c \<Rightarrow> c)\<rparr>\<rparr>)"

section \<open>The inline formatter\<close>

text \<open>
  The five patterns of \<open>parseFormattedText\<close> all have the shape: a literal, a lazy
  group \<open>(.+?)\<close>, and then literals and further lazy groups.  \<open>matchNodes\<close> matches what
  follows a group, \<open>lazyPlus\<close> is the group itself: it takes one code unit that is not a
  line terminator, tries the rest of the pattern, and takes one more code unit only when
  the rest fails, as the backtracking matcher of the language does.
\<close>

datatype node = Lit jsstring | Group

fun matchNodes :: "node list \<Rightarrow> jsstring \<Rightarrow> (jsstring list \<times> jsstring) option"
  and lazyPlus :: "node list \<Rightarrow> jsstring \<Rightarrow> (jsstring \<times> jsstring list \<times> jsstring) option"
where
  "matchNodes [] s = Some ([], s)"
| "matchNodes (Lit l # ns) s =
     (if startsWith s l then matchNodes ns (drop (length l) s) else None)"
| "matchNodes (Group # ns) s =
     (case lazyPlus ns s of None \<Rightarrow> None
      | Some (g, caps, rest) \<Rightarrow> Some (g # caps, rest))"
| "lazyPlus ns [] = None"
| "lazyPlus ns (c # cs) =
     (if isLineTerminator c then None
      else (case matchNodes ns cs of
              Some (caps, rest) \<Rightarrow> Some ([c], caps, rest)
            | None \<Rightarrow> (case lazyPlus ns cs of None \<Rightarrow> None
                       | Some (g, caps, rest) \<Rightarrow> Some (c # g, caps, rest))))"

text \<open>\<open>Regex opening ns\<close> is the pattern \<open>opening (.+?) ns\<close>.  A match at the head of
  \<open>s\<close> gives the first group, the later groups and the text after the match.\<close>

datatype regex = Regex jsstring "node list"

fun matchAt :: "regex \<Rightarrow> jsstring \<Rightarrow> (jsstring \<times> jsstring list \<times> jsstring) option" where
  "matchAt (Regex opening ns) s =
     (if startsWith s opening then lazyPlus ns (drop (length opening) s) else None)"

lemma matchNodes_length:
  "matchNodes ns s = Some (caps, rest) \<Longrightarrow> length rest \<le> length s"
  and lazyPlus_length:
  "lazyPlus ns s' = Some (g, caps', rest') \<Longrightarrow> length rest' < length s'"
proof (induction ns s and ns s' arbitrary: caps rest and g caps' rest'
    rule: matchNodes_lazyPlus.induct)
  case (1 s)
  then show ?case by simp
next
  case (2 l ns s)
  then show ?case by (fastforce split: if_splits)
next
  case (3 ns s)
  then show ?case by (fastforce split: option.splits)
next
  case (4 ns)
  then show ?case by simp
next
  case (5 ns c cs)
  then show ?case by (fastforce split: if_splits option.splits)
qed

lemma matchAt_length:
  "matchAt r s = Some (g, caps, rest) \<Longrightarrow> length rest < length s"
  by (cases r) (auto split: if_splits dest!: lazyPlus_length)

text \<open>The result of \<open>regex.exec\<close>: \<open>match.index\<close>, \<open>match[1]\<close>, \<open>match[2]\<close>, the
  new \<open>lastIndex\<close> (\<open>match.index + match[0].length\<close>) and the text from there on.\<close>

record Match =
  m_index :: nat
  m_1 :: jsstring
  m_2 :: "jsstring option"
  m_lastIndex :: nat
  m_rest :: jsstring

definition found :: "nat \<Rightarrow> jsstring \<Rightarrow> jsstring \<times> jsstring list \<times> jsstring \<Rightarrow> Match" where
  "found i s m = (case m of (g, caps, rest) \<Rightarrow>
     \<lparr>m_index = i, m_1 = g, m_2 = (case caps of [] \<Rightarrow> None | u # _ \<Rightarrow> Some u),
      m_lastIndex = i + (length s - length rest), m_rest = rest\<rparr>)"

text \<open>\<open>regex.exec(text)\<close> with the \<open>g\<close> flag, \<open>s\<close> being the text from \<open>lastIndex = i\<close>
  on: the first index at or after \<open>i\<close> where the pattern matches.\<close>

fun exec :: "regex \<Rightarrow> nat \<Rightarrow> jsstring \<Rightarrow> Match option" where
  "exec r i [] = map_option (found i []) (matchAt r [])"
| "exec r i (c # cs) =
     (case matchAt r (c # cs) of
        Some m \<Rightarrow> Some (found i (c # cs) m)
      | None \<Rightarrow> exec r (Suc i) cs)"

lemma exec_length:
  "exec r i s = Some m \<Longrightarrow> length (m_rest m) < length s"
  by (induction r i s rule: exec.induct)
    (auto simp: found_def split: option.splits prod.splits dest: matchAt_length)

record Token =
  t_start :: nat
  t_end :: nat
  t_text :: jsstring
  t_style :: Options
  t_link :: "jsstring option"

text \<open>A pattern of the source is \<open>{regex, style}\<close>; the style \<open>{link: true}\<close> of the last
  one is the flag \<open>isLink\<close>.\<close>

record Pattern =
  regex :: regex
  style :: Options
  isLink :: bool

definition patterns :: "Pattern list" where
  "patterns =
    [\<lparr>regex = Regex (js ''**'') [Lit (js ''**'')],
      style = noOptions\<lparr>o_bold := Some True\<rparr>, isLink = False\<rparr>,
     \<lparr>regex = Regex (js ''*'') [Lit (js ''*'')],
      style = noOptions\<lparr>o_italic := Some True\<rparr>, isLink = False\<rparr>,
     \<lparr>regex = Regex (js ''`'') [Lit (js ''`'')],
      style = noOptions\<lparr>o_code := Some True\<rparr>, isLink = False\<rparr>,
     \<lparr>regex = Regex (js ''~~'') [Lit (js ''~~'')],
      style = noOptions\<lparr>o_strikethrough := Some True\<rparr>, isLink = False\<rparr>,
     \<lparr>regex = Regex (js ''['') [Lit (js ''](''), Group, Lit (js '')'')],
      style = noOptions, isLink = True\<rparr>]"

text \<open>The \<open>while ((match = regex.exec(text)) !== null)\<close> loop of one pattern.  Every
  match is at least one code unit long, so \<open>lastIndex\<close> grows and the loop ends.\<close>

function findTokens :: "Pattern \<Rightarrow> nat \<Rightarrow> jsstring \<Rightarrow> Token list" where
  "findTokens pattern lastIndex s =
     (case exec (regex pattern) lastIndex s of
        None \<Rightarrow> []
      | Some m \<Rightarrow>
          (if isLink pattern
           then \<lparr>t_start = m_index m, t_end = m_lastIndex m, t_text = m_1 m,
                  t_style = noOptions, t_link = m_2 m\<rparr>
           else \<lparr>t_start = m_index m, t_end = m_lastIndex m, t_text = m_1 m,
                  t_style = style pattern, t_link = None\<rparr>)
          # findTokens pattern (m_lastIndex m) (m_rest m))"
  by pat_completeness auto
termination
  by (relation "measure (\<lambda>(p, i, s). length s)") (auto dest: exec_length)

declare findTokens.simps [simp del]

text \<open>The loop over the sorted tokens; the state is \<open>lastEnd\<close> and \<open>segments\<close>.\<close>

fun buildSegments :: "jsstring \<Rightarrow> Token list \<Rightarrow> nat \<Rightarrow> RichText list \<Rightarrow> nat \<times> RichText list" where
  "buildSegments text [] lastEnd segments = (lastEnd, segments)"
| "buildSegments text (token # tokens) lastEnd segments =
     (if t_start token < lastEnd then buildSegments text tokens lastEnd segments
      else
        let segments1 =
              (if t_start token > lastEnd
               then (let plainText = slice_js text lastEnd (t_start token)
                     in if trim plainText \<noteq> [] then segments @ [richText plainText None]
                        else segments)
               else segments);
            segments2 = segments1 @
              [richText (t_text token) (Some ((t_style token)\<lparr>o_link := t_link token\<rparr>))]
        in buildSegments text tokens (t_end token) segments2)"

text \<open>\<open>tokens.sort((a, b) => a.start - b.start)\<close> is a stable sort on \<open>start\<close>.\<close>

definition parseFormattedText :: "jsstring \<Rightarrow> RichText list" where
  "parseFormattedText text =
    (let tokens = sort_key t_start (concat (map (\<lambda>p. findTokens p 0 text) patterns))
     in if tokens = [] then [richText text None]
        else
          (case buildSegments text tokens 0 [] of (lastEnd, segments) \<Rightarrow>
            let segments' =
              (if lastEnd < length text
               then (let remaining = sliceFrom text lastEnd
                     in if trim remaining \<noteq> [] then segments @ [richText remaining None]
                        else segments)
               else segments)
            in if segments' \<noteq> [] then segments' else [richText text None]))"

text \<open>Runs written out, for stating results.\<close>

definition plain :: "jsstring \<Rightarrow> RichText" where
  "plain s = \<lparr>content = s, link = None, annotations = defaultAnnotations\<rparr>"

definition styled :: "jsstring \<Rightarrow> Annotations \<Rightarrow> RichText" where
  "styled s a = \<lparr>content = s, link = None, annotations = a\<rparr>"

section \<open>Blocks\<close>

text \<open>
  A block of the source is the object \<open>{object: 'block', type: T, [T]: payload}\<close>; each
  constructor is one \<open>type\<close> with the fields of its payload in the order of the source.
  A \<open>children\<close> field that the builder sets only on request is an \<open>option\<close>.
\<close>

datatype Block =
    Paragraph "RichText list" jsstring "Block list option"
  | Heading1 "RichText list" jsstring bool "Block list option"
  | Heading2 "RichText list" jsstring bool "Block list option"
  | Heading3 "RichText list" jsstring bool "Block list option"
  | Callout "RichText list" jsstring jsstring "Block list option"
  | Quote "RichText list" jsstring "Block list option"
  | Code "RichText list" jsstring "RichText list"
  | Equation jsstring
  | BulletedListItem "RichText list" jsstring "Block list option"
  | NumberedListItem "RichText list" jsstring "Block list option"
  | ToDo "RichText list" bool jsstring "Block list option"
  | Toggle "RichText list" jsstring "Block list"
  | ImageBlock jsstring "RichText list"
  | Video jsstring "RichText list"
  | Audio jsstring "RichText list"
  | Pdf jsstring "RichText list"
  | File jsstring jsstring "RichText list"
  | Embed jsstring
  | Bookmark jsstring "RichText list"
  | Divider
  | TableOfContents jsstring
  | Breadcrumb
  | ColumnList "Block list"
  | Column "Block list"
  | Table nat bool bool "Block list"
  | TableRow "RichText list list"

text \<open>The options object of the text builders; a builder reads the fields it knows.\<close>

record BuilderOptions =
  b_icon :: "jsstring option"
  b_color :: "jsstring option"
  b_toggleable :: "bool option"
  b_children :: "Block list option"
  b_parseMarkdown :: "bool option"

definition noBuilderOptions :: BuilderOptions where
  "noBuilderOptions = \<lparr>b_icon = None, b_color = None, b_toggleable = None, b_children = None,
     b_parseMarkdown = None\<rparr>"

text \<open>\<open>options?.color || 'default'\<close>, \<open>options?.children\<close>, \<open>options?.toggleable || false\<close>,
  \<open>options?.parseMarkdown !== false\<close> and the truthiness of \<open>options?.icon\<close>.\<close>

definition colorOf :: "BuilderOptions option \<Rightarrow> jsstring" where
  "colorOf options = (case options of None \<Rightarrow> js ''default''
     | Some opts \<Rightarrow> (case b_color opts of None \<Rightarrow> js ''default''
         | Some c \<Rightarrow> if c = [] then js ''default'' else c))"

definition childrenOf :: "BuilderOptions option \<Rightarrow> Block list option" where
  "childrenOf options = (case options of None \<Rightarrow> None | Some opts \<Rightarrow> b_children opts)"

definition toggleableOf :: "BuilderOptions option \<Rightarrow> bool" where
  "toggleableOf options = (case options of None \<Rightarrow> False
     | Some opts \<Rightarrow> (case b_toggleable opts of None \<Rightarrow> False | Some b \<Rightarrow> b))"

definition parseMarkdownOf :: "BuilderOptions option \<Rightarrow> bool" where
  "parseMarkdownOf options = (case options of None \<Rightarrow> True
     | Some opts \<Rightarrow> b_parseMarkdown opts \<noteq> Some False)"

definition iconOf :: "BuilderOptions option \<Rightarrow> jsstring option" where
  "iconOf options = (case options of None \<Rightarrow> None
     | Some opts \<Rightarrow> (case b_icon opts of None \<Rightarrow> None
         | Some i \<Rightarrow> if i = [] then None else Some i))"

record FormattedTextSegment =
  seg_text :: jsstring
  seg_options :: Options

text \<open>The argument of a text builder: a string, an array of runs, an array of segments,
  or a value that is none of these (\<open>undefined\<close>).\<close>

datatype TextContent =
    Str jsstring
  | Rich "RichText list"
  | Segments "FormattedTextSegment list"
  | Missing

definition formattedSegmentsToRichText :: "FormattedTextSegment list \<Rightarrow> RichText list" where
  "formattedSegmentsToRichText segments =
     map (\<lambda>s. richText (seg_text s) (Some (seg_options s)))
       (filter (\<lambda>s. seg_text s \<noteq> [] \<and> length (trim (seg_text s)) > 0) segments)"

definition toRichTextArray :: "TextContent \<Rightarrow> bool \<Rightarrow> RichText list option" where
  "toRichTextArray textContent parseMarkdown =
    (case textContent of
       Str s \<Rightarrow>
         (let trimmed = trim s
          in if trimmed = [] then None
             else Some (if parseMarkdown then parseFormattedText trimmed
                        else [richText trimmed None]))
     | Rich rts \<Rightarrow>
         (if length rts > 0 then Some (filter (\<lambda>rt. length (trim (content rt)) > 0) rts)
          else None)
     | Segments segs \<Rightarrow>
         (if length segs > 0 then Some (formattedSegmentsToRichText segs) else None)
     | Missing \<Rightarrow> None)"

text \<open>\<open>toRichTextArray(content, ...) || [richText('')]\<close>: an array, even an empty one, is
  truthy.\<close>

definition richTextOr :: "TextContent \<Rightarrow> BuilderOptions option \<Rightarrow> RichText list" where
  "richTextOr textContent options =
    (case toRichTextArray textContent (parseMarkdownOf options) of
       None \<Rightarrow> [richText [] None] | Some rts \<Rightarrow> rts)"

definition paragraph_block :: "TextContent \<Rightarrow> BuilderOptions option \<Rightarrow> Block option" where
  "paragraph_block textContent options =
    (case toRichTextArray textContent (parseMarkdownOf options) of
       None \<Rightarrow> None
     | Some richTextContent \<Rightarrow>
         if length richTextContent = 0 then None
         else Some (Paragraph richTextContent (colorOf options) (childrenOf options)))"

definition heading1 :: "TextContent \<Rightarrow> BuilderOptions option \<Rightarrow> Block" where
  "heading1 textContent options =
     Heading1 (richTextOr textContent options) (colorOf options) (toggleableOf options)
       (if toggleableOf options then childrenOf options else None)"

definition heading2 :: "TextContent \<Rightarrow> BuilderOptions option \<Rightarrow> Block" where
  "heading2 textContent options =
     Heading2 (richTextOr textContent options) (colorOf options) (toggleableOf options)
       (if toggleableOf options then childrenOf options else None)"

definition heading3 :: "TextContent \<Rightarrow> BuilderOptions option \<Rightarrow> Block" where
  "heading3 textContent options =
     Heading3 (richTextOr textContent options) (colorOf options) (toggleableOf options)
       (if toggleableOf options then childrenOf options else None)"

definition callout :: "TextContent \<Rightarrow> BuilderOptions option \<Rightarrow> Block" where
  "callout textContent options =
     Callout (richTextOr textContent options)
       (case iconOf options of Some i \<Rightarrow> i | None \<Rightarrow> [0xD83D, 0xDCA1])
       (colorOf options) (childrenOf options)"

definition quote :: "TextContent \<Rightarrow> BuilderOptions option \<Rightarrow> Block" where
  "quote textContent options =
     Quote (richTextOr textContent options) (colorOf options) (childrenOf options)"

text \<open>\<open>caption ? [richText(caption)] : []\<close>.\<close>

definition captionOf :: "jsstring option \<Rightarrow> RichText list" where
  "captionOf caption = (case caption of None \<Rightarrow> []
     | Some c \<Rightarrow> if c = [] then [] else [richText c None])"

definition code :: "jsstring \<Rightarrow> jsstring \<Rightarrow> jsstring option \<Rightarrow> Block" where
  "code str language caption =
    (let maxCodeLength = 50000;
         codeContent = trim str;
         codeContent' =
           (if length codeContent > maxCodeLength
            then substring0 codeContent (maxCodeLength - 100) @
                 [0x0A, 0x0A] @ js ''// ... Code tronqu'' @ [0xE9]
            else codeContent)
     in Code [richText codeContent' None] language (captionOf caption))"

definition equation :: "jsstring \<Rightarrow> Block" where
  "equation expression = Equation expression"

definition bulletedListItem :: "TextContent \<Rightarrow> BuilderOptions option \<Rightarrow> Block" where
  "bulletedListItem textContent options =
     BulletedListItem (richTextOr textContent options) (colorOf options) (childrenOf options)"

definition numberedListItem :: "TextContent \<Rightarrow> BuilderOptions option \<Rightarrow> Block" where
  "numberedListItem textContent options =
     NumberedListItem (richTextOr textContent options) (colorOf options) (childrenOf options)"

definition todo :: "TextContent \<Rightarrow> bool \<Rightarrow> BuilderOptions option \<Rightarrow> Block" where
  "todo textContent checked options =
     ToDo (richTextOr textContent options) checked (colorOf options) (childrenOf options)"

definition toggle :: "TextContent \<Rightarrow> Block list \<Rightarrow> BuilderOptions option \<Rightarrow> Block" where
  "toggle textContent children options =
     Toggle (richTextOr textContent options) (colorOf options) children"

section \<open>URL validation\<close>

text \<open>
  \<open>isValidUrl\<close> calls the platform's \<open>new URL(url)\<close>, the URL parser of the WHATWG URL
  standard with no base URL.  \<open>urlScheme\<close> is that parser up to the colon of the scheme:
  it strips leading and trailing C0 controls and spaces, removes ASCII tabs and newlines,
  and reads an ASCII letter followed by letters, digits, \<open>+\<close>, \<open>-\<close> and \<open>.\<close> up to a colon;
  without such a scheme the parser fails (there is no base URL).  The scheme is
  lower-cased, and \<open>protocol\<close> is the scheme followed by the colon.
\<close>

definition isC0ControlOrSpace :: "code_unit \<Rightarrow> bool" where
  "isC0ControlOrSpace c = (c \<le> 0x20)"

definition isAsciiTabOrNewline :: "code_unit \<Rightarrow> bool" where
  "isAsciiTabOrNewline c = (c = 0x09 \<or> c = 0x0A \<or> c = 0x0D)"

definition isAsciiUpper :: "code_unit \<Rightarrow> bool" where
  "isAsciiUpper c = (0x41 \<le> c \<and> c \<le> 0x5A)"

definition isAsciiLower :: "code_unit \<Rightarrow> bool" where
  "isAsciiLower c = (0x61 \<le> c \<and> c \<le> 0x7A)"

definition isAsciiDigit :: "code_unit \<Rightarrow> bool" where
  "isAsciiDigit c = (0x30 \<le> c \<and> c \<le> 0x39)"

definition isSchemeChar :: "code_unit \<Rightarrow> bool" where
  "isSchemeChar c = (isAsciiUpper c \<or> isAsciiLower c \<or> isAsciiDigit c \<or>
     c = 0x2B \<or> c = 0x2D \<or> c = 0x2E)"

definition asciiLower :: "code_unit \<Rightarrow> code_unit" where
  "asciiLower c = (if isAsciiUpper c then c + 0x20 else c)"

definition urlScheme :: "jsstring \<Rightarrow> (jsstring \<times> jsstring) option" where
  "urlScheme input =
    (let stripped = rev (dropWhile isC0ControlOrSpace (rev (dropWhile isC0ControlOrSpace input)));
         cleaned = filter (\<lambda>c. \<not> isAsciiTabOrNewline c) stripped
     in case cleaned of
          [] \<Rightarrow> None
        | c # cs \<Rightarrow>
            if isAsciiUpper c \<or> isAsciiLower c
            then (case dropWhile isSchemeChar cs of
                    [] \<Rightarrow> None
                  | d # rest \<Rightarrow>
                      if d = 0x3A
                      then Some (map asciiLower (c # takeWhile isSchemeChar cs), rest)
                      else None)
            else None)"

text \<open>
  Modelled as a parameter: what the URL parser does after the colon of an \<open>http\<close> or
  \<open>https\<close> URL (authority, host, port, path), which is the platform's and not code of
  this repository.  \<open>accepts scheme rest\<close> says whether it accepts the text after the
  colon.  For any other scheme the answer does not matter: \<open>protocol\<close> is not in the list.
\<close>

type_synonym url_parser = "jsstring \<Rightarrow> jsstring \<Rightarrow> bool"

definition isValidUrl :: "url_parser \<Rightarrow> jsstring \<Rightarrow> bool" where
  "isValidUrl accepts url =
    (case urlScheme url of
       None \<Rightarrow> False
     | Some (scheme, rest) \<Rightarrow>
         if scheme @ js '':'' \<in> set [js ''http:'', js ''https:''] then accepts scheme rest
         else False)"

section \<open>Media builders\<close>

definition image_block :: "url_parser \<Rightarrow> jsstring \<Rightarrow> jsstring option \<Rightarrow> Block option" where
  "image_block accepts url caption =
    (if \<not> isValidUrl accepts url
     then paragraph_block (Str (js ''[Image invalide: '' @ url @ js '']'')) None
     else Some (ImageBlock url (captionOf caption)))"

definition video :: "url_parser \<Rightarrow> jsstring \<Rightarrow> jsstring option \<Rightarrow> Block option" where
  "video accepts url caption =
    (if \<not> isValidUrl accepts url
     then paragraph_block (Str (js ''[Vid'' @ [0xE9] @ js ''o invalide: '' @ url @ js '']'')) None
     else Some (Video url (captionOf caption)))"

definition audio :: "url_parser \<Rightarrow> jsstring \<Rightarrow> jsstring option \<Rightarrow> Block option" where
  "audio accepts url caption =
    (if \<not> isValidUrl accepts url
     then paragraph_block (Str (js ''[Audio invalide: '' @ url @ js '']'')) None
     else Some (Audio url (captionOf caption)))"

definition pdf :: "url_parser \<Rightarrow> jsstring \<Rightarrow> jsstring option \<Rightarrow> Block option" where
  "pdf accepts url caption =
    (if \<not> isValidUrl accepts url
     then paragraph_block (Str (js ''[PDF invalide: '' @ url @ js '']'')) None
     else Some (Pdf url (captionOf caption)))"

text \<open>\<open>name || 'file'\<close>.\<close>

definition file_block :: "url_parser \<Rightarrow> jsstring \<Rightarrow> jsstring option \<Rightarrow> jsstring option \<Rightarrow> Block option" where
  "file_block accepts url name caption =
    (if \<not> isValidUrl accepts url
     then paragraph_block (Str (js ''[Fichier invalide: '' @ url @ js '']'')) None
     else Some (File url
       (case name of None \<Rightarrow> js ''file'' | Some n \<Rightarrow> if n = [] then js ''file'' else n)
       (captionOf caption)))"

definition embed_block :: "url_parser \<Rightarrow> jsstring \<Rightarrow> Block option" where
  "embed_block accepts url =
    (if \<not> isValidUrl accepts url
     then paragraph_block (Str (js ''[Embed invalide: '' @ url @ js '']'')) None
     else Some (Embed url))"

definition bookmark :: "url_parser \<Rightarrow> jsstring \<Rightarrow> jsstring option \<Rightarrow> Block option" where
  "bookmark accepts url caption =
    (if \<not> isValidUrl accepts url
     then paragraph_block (Str (js ''[Bookmark invalide: '' @ url @ js '']'')) None
     else Some (Bookmark url (captionOf caption)))"

definition linkPreview :: "url_parser \<Rightarrow> jsstring \<Rightarrow> Block option" where
  "linkPreview accepts url = bookmark accepts url None"

section \<open>Layout builders\<close>

definition divider :: Block where
  "divider = Divider"

definition tableOfContents :: "jsstring option \<Rightarrow> Block" where
  "tableOfContents color =
     TableOfContents (case color of None \<Rightarrow> js ''default''
       | Some c \<Rightarrow> if c = [] then js ''default'' else c)"

definition breadcrumb :: Block where
  "breadcrumb = Breadcrumb"

text \<open>\<open>columnList\<close> on an array of block arrays, the form every caller in the
  repository passes (no \<open>widthRatio\<close>).\<close>

definition columnList :: "Block list list \<Rightarrow> Block" where
  "columnList columns = ColumnList (map (\<lambda>blocks. Column blocks) columns)"

datatype Cell = CellString jsstring | CellRich "RichText list"

record TableOptions =
  hasColumnHeader :: "bool option"
  hasRowHeader :: "bool option"

definition table :: "Cell list list \<Rightarrow> TableOptions option \<Rightarrow> Block" where
  "table rows options =
    (let tableRows = map (\<lambda>row. TableRow (map (\<lambda>cell. case cell of
                        CellString s \<Rightarrow> [richText s None] | CellRich rts \<Rightarrow> rts) row)) rows
     in Table (case rows of [] \<Rightarrow> 0 | row0 # _ \<Rightarrow> length row0)
          (case options of None \<Rightarrow> True
           | Some opts \<Rightarrow> (case hasColumnHeader opts of None \<Rightarrow> True | Some b \<Rightarrow> b))
          (case options of None \<Rightarrow> False
           | Some opts \<Rightarrow> (case hasRowHeader opts of None \<Rightarrow> False | Some b \<Rightarrow> b))
          tableRows)"

section \<open>Course templates\<close>

definition TEMPLATE_EMOJIS :: "jsstring list" where
  "TEMPLATE_EMOJIS =
    [[0x2139, 0xFE0F], [0x26A0, 0xFE0F], [0xD83D, 0xDCA1], [0xD83D, 0xDEA8], [0xD83D, 0xDCD6],
     [0x270F, 0xFE0F], [0xD83E, 0xDDE0], [0xD83D, 0xDCDD], [0xD83C, 0xDFAF], [0xD83D, 0xDCCB],
     [0x23F1, 0xFE0F]]"

definition cleanLeadingEmoji :: "jsstring \<Rightarrow> jsstring" where
  "cleanLeadingEmoji text =
     fold (\<lambda>emoji cleaned.
             if startsWith cleaned emoji then trim (sliceFrom cleaned (length emoji))
             else cleaned)
       TEMPLATE_EMOJIS (trim text)"

text \<open>
  The \<open>i\<close> flag compares code units after \<open>Canonicalize\<close>, the one-unit upper case.
  \<open>canonicalize\<close> is that map on Latin-1 letters and the identity elsewhere; for the
  letters of the three patterns below (ASCII letters and \<open>U+00C9\<close>) it identifies
  exactly the code units \<open>Canonicalize\<close> does.
\<close>

definition canonicalize :: "code_unit \<Rightarrow> code_unit" where
  "canonicalize c =
     (if isAsciiLower c \<or> (0xE0 \<le> c \<and> c \<le> 0xFE \<and> c \<noteq> 0xF7) then c - 0x20 else c)"

definition startsWithIgnoreCase :: "jsstring \<Rightarrow> jsstring \<Rightarrow> bool" where
  "startsWithIgnoreCase s w = (map canonicalize (take (length w) s) = map canonicalize w)"

text \<open>\<open>s.replace(/^W\s*:\s*/i, '')\<close> for a literal word \<open>W\<close>.\<close>

definition replaceLabel :: "jsstring \<Rightarrow> jsstring \<Rightarrow> jsstring" where
  "replaceLabel w s =
    (if startsWithIgnoreCase s w
     then (case dropWhile isSpace (drop (length w) s) of
             [] \<Rightarrow> s
           | c # rest \<Rightarrow> if c = 0x3A then dropWhile isSpace rest else s)
     else s)"

text \<open>\<open>s.replace(/^Etape\s+\d+\s*:\s*/i, '')\<close>, where the \<open>E\<close> of the source is \<open>U+00C9\<close>
  (E with acute accent).\<close>

definition replaceEtape :: "jsstring \<Rightarrow> jsstring" where
  "replaceEtape s =
    (let w = [0xC9] @ js ''tape'' in
     if startsWithIgnoreCase s w
     then (let afterWord = drop (length w) s;
               afterSpaces = dropWhile isSpace afterWord;
               afterDigits = dropWhile isAsciiDigit afterSpaces
           in if length afterSpaces < length afterWord \<and> length afterDigits < length afterSpaces
              then (case dropWhile isSpace afterDigits of
                      [] \<Rightarrow> s
                    | c # rest \<Rightarrow> if c = 0x3A then dropWhile isSpace rest else s)
              else s)
     else s)"

text \<open>A number in a template literal; the numbers of the source that reach one are
  integers, written in decimal.\<close>

fun digits :: "nat \<Rightarrow> jsstring" where
  "digits n = (if n < 10 then [of_nat (48 + n)] else digits (n div 10) @ [of_nat (48 + n mod 10)])"

declare digits.simps [simp del]

definition numberToString :: "int \<Rightarrow> jsstring" where
  "numberToString n = (if n < 0 then js ''-'' @ digits (nat (- n)) else digits (nat n))"

datatype NoteType = Info | Warning | Tip | Danger

definition noteImportante :: "jsstring \<Rightarrow> NoteType \<Rightarrow> Block" where
  "noteImportante str type =
    (let config = (case type of
             Info \<Rightarrow> noBuilderOptions\<lparr>b_icon := Some [0x2139, 0xFE0F], b_color := Some (js ''blue_background'')\<rparr>
           | Warning \<Rightarrow> noBuilderOptions\<lparr>b_icon := Some [0x26A0, 0xFE0F], b_color := Some (js ''yellow_background'')\<rparr>
           | Tip \<Rightarrow> noBuilderOptions\<lparr>b_icon := Some [0xD83D, 0xDCA1], b_color := Some (js ''green_background'')\<rparr>
           | Danger \<Rightarrow> noBuilderOptions\<lparr>b_icon := Some [0xD83D, 0xDEA8], b_color := Some (js ''red_background'')\<rparr>);
         cleanContent = cleanLeadingEmoji str
     in callout (Str cleanContent) (Some config))"

definition bold :: "Options option" where
  "bold = Some (noOptions\<lparr>o_bold := Some True\<rparr>)"

definition definition_block :: "jsstring \<Rightarrow> jsstring \<Rightarrow> BuilderOptions option \<Rightarrow> Block" where
  "definition_block term def options =
    (let cleanDef = cleanLeadingEmoji def
     in callout (Rich [richText term bold, richText (js '': '') None, richText cleanDef None])
          (Some (noBuilderOptions\<lparr>b_icon := Some [0xD83D, 0xDCD6],
             b_color := Some (case options of None \<Rightarrow> js ''purple_background''
               | Some opts \<Rightarrow> (case b_color opts of None \<Rightarrow> js ''purple_background''
                   | Some c \<Rightarrow> if c = [] then js ''purple_background'' else c))\<rparr>)))"

definition filterValidBlocks :: "Block option list \<Rightarrow> Block list" where
  "filterValidBlocks blocks = concat (map (\<lambda>block. case block of None \<Rightarrow> [] | Some b \<Rightarrow> [b]) blocks)"

definition emojiNumbers :: "jsstring list" where
  "emojiNumbers =
    [[0x31, 0xFE0F, 0x20E3], [0x32, 0xFE0F, 0x20E3], [0x33, 0xFE0F, 0x20E3],
     [0x34, 0xFE0F, 0x20E3], [0x35, 0xFE0F, 0x20E3], [0x36, 0xFE0F, 0x20E3],
     [0x37, 0xFE0F, 0x20E3], [0x38, 0xFE0F, 0x20E3], [0x39, 0xFE0F, 0x20E3], [0xD83D, 0xDD1F]]"

text \<open>\<open>emojiNumbers[number - 1]\<close> is \<open>undefined\<close> outside the array, and \<open>callout\<close> then
  takes its default icon.\<close>

definition step :: "int \<Rightarrow> jsstring \<Rightarrow> jsstring option \<Rightarrow> Block option list option \<Rightarrow> Block" where
  "step number title description children =
    (let emoji = (if number \<le> 10
                  then (if 1 \<le> number then Some (emojiNumbers ! nat (number - 1)) else None)
                  else Some [0x23FA, 0xFE0F]);
         cleanTitle = trim (replaceEtape title);
         textContent = [richText ([0xC9] @ js ''tape '' @ numberToString number @ js '': '') bold,
                        richText cleanTitle None];
         fromDescription = (case description of None \<Rightarrow> []
            | Some d \<Rightarrow> if d = [] then []
                else (case paragraph_block (Str d) None of None \<Rightarrow> [] | Some descBlock \<Rightarrow> [descBlock]));
         blockChildren = fromDescription @
            (case children of None \<Rightarrow> [] | Some cs \<Rightarrow> filterValidBlocks cs)
     in callout (Rich textContent)
          (Some (noBuilderOptions\<lparr>b_icon := emoji, b_color := Some (js ''gray_background''),
             b_children := (if length blockChildren > 0 then Some blockChildren else None)\<rparr>)))"

definition exercice :: "jsstring \<Rightarrow> jsstring list \<Rightarrow> jsstring option \<Rightarrow> Block" where
  "exercice title instructions solution =
    (let cleanTitle = trim (replaceLabel (js ''Exercice'') (cleanLeadingEmoji title));
         cleanInstructions = filter (\<lambda>i. length i > 0) (map trim instructions);
         children = map (\<lambda>i. bulletedListItem (Str i) None) cleanInstructions @
           (case solution of None \<Rightarrow> []
            | Some sol \<Rightarrow> if sol = [] then []
                else [toggle (Str ([0xD83D, 0xDCA1] @ js '' Voir la solution''))
                        [code (trim sol) (js ''plain text'') None]
                        (Some (noBuilderOptions\<lparr>b_color := Some (js ''green_background'')\<rparr>))])
     in callout (Rich [richText (js ''Exercice: '') bold, richText cleanTitle None])
          (Some (noBuilderOptions\<lparr>b_icon := Some [0x270F, 0xFE0F],
             b_color := Some (js ''orange_background''), b_children := Some children\<rparr>)))"

definition chapterSummary :: "jsstring list \<Rightarrow> Block" where
  "chapterSummary points =
    (let cleanPoints = filter (\<lambda>p. length p > 0) (map trim points)
     in callout (Str (js ''Points cl'' @ [0xE9] @ js ''s '' @ [0xE0] @ js '' retenir''))
          (Some (noBuilderOptions\<lparr>b_icon := Some [0xD83D, 0xDCDD],
             b_color := Some (js ''blue_background''),
             b_children := Some (map (\<lambda>p. bulletedListItem (Str p)
                (Some (noBuilderOptions\<lparr>b_color := Some (js ''blue'')\<rparr>))) cleanPoints)\<rparr>)))"

definition learningObjectives :: "jsstring list \<Rightarrow> Block" where
  "learningObjectives objectives =
    (let cleanObjectives = filter (\<lambda>obj. length obj > 0) (map trim objectives)
     in callout (Str ([0xC0] @ js '' la fin de cette section, vous serez capable de :''))
          (Some (noBuilderOptions\<lparr>b_icon := Some [0xD83C, 0xDFAF],
             b_color := Some (js ''green_background''),
             b_children := Some (map (\<lambda>obj. todo (Str obj) False None) cleanObjectives)\<rparr>)))"

definition prerequisites :: "jsstring list \<Rightarrow> Block" where
  "prerequisites items =
    (let cleanItems = filter (\<lambda>i. length i > 0) (map trim items)
     in callout (Str (js ''Pr'' @ [0xE9] @ js ''requis''))
          (Some (noBuilderOptions\<lparr>b_icon := Some [0xD83D, 0xDCCB],
             b_color := Some (js ''gray_background''),
             b_children := Some (map (\<lambda>i. bulletedListItem (Str i) None) cleanItems)\<rparr>)))"

definition estimatedTime :: "int \<Rightarrow> Block" where
  "estimatedTime minutes =
     callout (Str (js ''Temps estim'' @ [0xE9] @ js '' : '' @ numberToString minutes @ js '' minutes''))
       (Some (noBuilderOptions\<lparr>b_icon := Some [0x23F1, 0xFE0F],
          b_color := Some (js ''purple_background'')\<rparr>))"

record Side =
  side_title :: jsstring
  side_content :: "Block list"

definition comparison :: "Side \<Rightarrow> Side \<Rightarrow> Block" where
  "comparison left right =
     columnList
       [heading3 (Str (side_title left)) (Some (noBuilderOptions\<lparr>b_color := Some (js ''green'')\<rparr>))
          # side_content left,
        heading3 (Str (side_title right)) (Some (noBuilderOptions\<lparr>b_color := Some (js ''red'')\<rparr>))
          # side_content right]"

record Explanation =
  e_line :: jsstring
  e_explanation :: jsstring

definition codeWithExplanation :: "jsstring \<Rightarrow> jsstring \<Rightarrow> Explanation list \<Rightarrow> Block list" where
  "codeWithExplanation codeContent language explanations =
     [code codeContent language None,
      callout (Str (js ''Explication ligne par ligne :''))
        (Some (noBuilderOptions\<lparr>b_icon := Some [0xD83D, 0xDCD6],
           b_color := Some (js ''gray_background''),
           b_children := Some (map (\<lambda>e. bulletedListItem
              (Rich [richText (e_line e) (Some (noOptions\<lparr>o_code := Some True\<rparr>)),
                     richText [0x20, 0x2192, 0x20] None,
                     richText (e_explanation e) None]) None) explanations)\<rparr>))]"

text \<open>\<open>String.fromCharCode(65 + i)\<close> wraps modulo \<open>2^16\<close>, as the word does.\<close>

definition letter :: "nat \<Rightarrow> code_unit" where
  "letter i = of_nat (65 + i)"

definition quickQuiz :: "jsstring \<Rightarrow> jsstring list option \<Rightarrow> int \<Rightarrow> Block option" where
  "quickQuiz question options correctIndex =
    (case options of
       None \<Rightarrow> paragraph_block (Str (js ''Quiz invalide : options manquantes'')) None
     | Some opts \<Rightarrow>
        if length opts < 2
        then paragraph_block (Str (js ''Quiz invalide : options manquantes'')) None
        else
          let correctIndex' =
                (if correctIndex < 0 \<or> correctIndex \<ge> int (length opts) then 0
                 else nat correctIndex);
              cleanQuestion = trim (replaceLabel (js ''Quiz'') (cleanLeadingEmoji question));
              cleanOptions = map trim opts
          in Some (callout (Rich [richText (js ''Quiz: '') bold, richText cleanQuestion None])
               (Some (noBuilderOptions\<lparr>b_icon := Some [0xD83E, 0xDDE0],
                  b_color := Some (js ''purple_background''),
                  b_children := Some
                    (map (\<lambda>(i, opt). bulletedListItem (Str ([letter i] @ js '') '' @ opt)) None)
                       (enumerate 0 cleanOptions) @
                     [toggle (Str (js ''Voir la r'' @ [0xE9] @ js ''ponse''))
                        [callout (Str (js ''La bonne r'' @ [0xE9] @ js ''ponse est '' @
                                   [letter correctIndex'] @ js '') '' @ cleanOptions ! correctIndex'))
                           (Some (noBuilderOptions\<lparr>b_icon := Some [0x2705],
                              b_color := Some (js ''green_background'')\<rparr>))]
                        None])\<rparr>))))"

section \<open>The course compiler\<close>

record SideItems =
  s_title :: jsstring
  s_items :: "jsstring list"

text \<open>The interface \<open>CourseContent\<close>: \<open>type\<close> and the optional fields, each absent or of
  its declared type; \<open>children\<close> is the second argument of \<open>Item\<close>.\<close>

record ItemFields =
  i_type :: jsstring
  i_text :: "jsstring option"
  i_items :: "jsstring list option"
  i_code :: "jsstring option"
  i_language :: "jsstring option"
  i_caption :: "jsstring option"
  i_url :: "jsstring option"
  i_icon :: "jsstring option"
  i_color :: "jsstring option"
  i_checked :: "bool option"
  i_question :: "jsstring option"
  i_options :: "jsstring list option"
  i_correctIndex :: "int option"
  i_term :: "jsstring option"
  i_definition :: "jsstring option"
  i_stepNumber :: "int option"
  i_instructions :: "jsstring list option"
  i_solution :: "jsstring option"
  i_minutes :: "int option"
  i_objectives :: "jsstring list option"
  i_left :: "SideItems option"
  i_right :: "SideItems option"
  i_explanations :: "Explanation list option"
  i_headers :: "jsstring list option"
  i_rows :: "jsstring list list option"
  i_toggleable :: "bool option"

datatype CourseContent = Item ItemFields "CourseContent list option"

text \<open>\<open>a || b\<close> on an optional string (absent and empty are falsy), on an optional array
  (only absent is falsy), on an optional number (absent and 0 are falsy) and on an
  optional boolean.\<close>

definition orString :: "jsstring option \<Rightarrow> jsstring \<Rightarrow> jsstring" where
  "orString a b = (case a of None \<Rightarrow> b | Some s \<Rightarrow> if s = [] then b else s)"

definition orArray :: "'a list option \<Rightarrow> 'a list \<Rightarrow> 'a list" where
  "orArray a b = (case a of None \<Rightarrow> b | Some xs \<Rightarrow> xs)"

definition orNumber :: "int option \<Rightarrow> int \<Rightarrow> int" where
  "orNumber a b = (case a of None \<Rightarrow> b | Some n \<Rightarrow> if n = 0 then b else n)"

definition orBool :: "bool option \<Rightarrow> bool \<Rightarrow> bool" where
  "orBool a b = (case a of None \<Rightarrow> b | Some x \<Rightarrow> x \<or> b)"

text \<open>What \<open>buildCourseBlock\<close> returns: \<open>null\<close>, one block, or an array of blocks.
  The arrays come from builders that always return a block, so they hold no \<open>null\<close> and
  \<open>filterValidBlocks\<close> keeps them whole where the callers apply it.\<close>

datatype Built = Null | One Block | Many "Block list"

definition ofOption :: "Block option \<Rightarrow> Built" where
  "ofOption r = (case r of None \<Rightarrow> Null | Some b \<Rightarrow> One b)"

text \<open>\<open>result ? (Array.isArray(result) ? result : [result]) : []\<close>.\<close>

definition asArray :: "Built \<Rightarrow> Block list" where
  "asArray r = (case r of Null \<Rightarrow> [] | One b \<Rightarrow> [b] | Many bs \<Rightarrow> bs)"

definition colorOptions :: "ItemFields \<Rightarrow> BuilderOptions option" where
  "colorOptions f = Some (noBuilderOptions\<lparr>b_color := i_color f\<rparr>)"

definition headingOptions :: "ItemFields \<Rightarrow> BuilderOptions option" where
  "headingOptions f = Some (noBuilderOptions\<lparr>b_color := i_color f, b_toggleable := i_toggleable f\<rparr>)"

definition sideOf :: "SideItems \<Rightarrow> Side" where
  "sideOf s = \<lparr>side_title = s_title s,
     side_content = map (\<lambda>i. bulletedListItem (Str i) None) (s_items s)\<rparr>"

lemma size_child:
  assumes "c \<in> set (orArray children [])"
  shows "size c < Suc (size_option (size_list size) children)"
proof (cases children)
  case None
  with assms show ?thesis by (simp add: orArray_def)
next
  case (Some cs)
  with assms have "c \<in> set cs" by (simp add: orArray_def)
  then have "size c \<le> size_list size cs" by (rule size_list_estimation') simp
  with Some show ?thesis by simp
qed

function buildCourseBlock :: "url_parser \<Rightarrow> CourseContent \<Rightarrow> Built" where
  "buildCourseBlock accepts (Item item children) =
    (let type = i_type item in
     if type = js ''paragraph'' then ofOption (paragraph_block (Str (orString (i_text item) [])) None)
     else if type = js ''heading1'' then One (heading1 (Str (orString (i_text item) [])) (headingOptions item))
     else if type = js ''heading2'' then One (heading2 (Str (orString (i_text item) [])) (headingOptions item))
     else if type = js ''heading3'' then One (heading3 (Str (orString (i_text item) [])) (headingOptions item))
     else if type = js ''quote'' then One (quote (Str (orString (i_text item) [])) (colorOptions item))
     else if type = js ''callout'' then
       One (callout (Str (orString (i_text item) []))
              (Some (noBuilderOptions\<lparr>b_icon := i_icon item, b_color := i_color item\<rparr>)))
     else if type = js ''info'' then One (noteImportante (orString (i_text item) []) Info)
     else if type = js ''warning'' then One (noteImportante (orString (i_text item) []) Warning)
     else if type = js ''tip'' then One (noteImportante (orString (i_text item) []) Tip)
     else if type = js ''danger'' then One (noteImportante (orString (i_text item) []) Danger)
     else if type = js ''code'' then
       One (code (orString (i_code item) (orString (i_text item) []))
              (orString (i_language item) (js ''javascript'')) (i_caption item))
     else if type = js ''equation'' then One (equation (orString (i_text item) []))
     else if type = js ''codeWithExplanation'' then
       Many (codeWithExplanation (orString (i_code item) [])
               (orString (i_language item) (js ''javascript'')) (orArray (i_explanations item) []))
     else if type = js ''bullet'' \<or> type = js ''bulletedListItem'' then
       One (bulletedListItem (Str (orString (i_text item) [])) None)
     else if type = js ''bullets'' then
       Many (map (\<lambda>i. bulletedListItem (Str i) None) (orArray (i_items item) []))
     else if type = js ''numbered'' \<or> type = js ''numberedListItem'' then
       One (numberedListItem (Str (orString (i_text item) [])) None)
     else if type = js ''numberedList'' then
       Many (map (\<lambda>i. numberedListItem (Str i) None) (orArray (i_items item) []))
     else if type = js ''todo'' then
       One (todo (Str (orString (i_text item) [])) (orBool (i_checked item) False) None)
     else if type = js ''todoList'' then
       Many (map (\<lambda>i. todo (Str i) False None) (orArray (i_items item) []))
     else if type = js ''toggle'' then
       (let toggleChildren =
              concat (map (\<lambda>c. asArray (buildCourseBlock accepts c)) (orArray children []))
        in One (toggle (Str (orString (i_text item) [])) toggleChildren (colorOptions item)))
     else if type = js ''image'' then ofOption (image_block accepts (orString (i_url item) []) (i_caption item))
     else if type = js ''video'' then ofOption (video accepts (orString (i_url item) []) (i_caption item))
     else if type = js ''audio'' then ofOption (audio accepts (orString (i_url item) []) (i_caption item))
     else if type = js ''pdf'' then ofOption (pdf accepts (orString (i_url item) []) (i_caption item))
     else if type = js ''embed'' then ofOption (embed_block accepts (orString (i_url item) []))
     else if type = js ''bookmark'' \<or> type = js ''linkPreview'' then
       ofOption (bookmark accepts (orString (i_url item) []) (i_caption item))
     else if type = js ''divider'' then One divider
     else if type = js ''tableOfContents'' then One (tableOfContents (i_color item))
     else if type = js ''breadcrumb'' then One breadcrumb
     else if type = js ''table'' then
       One (table (map (map CellString) (orArray (i_rows item) []))
              (Some \<lparr>hasColumnHeader = Some True, hasRowHeader = None\<rparr>))
     else if type = js ''columns'' \<or> type = js ''comparison'' then
       (case (i_left item, i_right item) of
          (Some left, Some right) \<Rightarrow> One (comparison (sideOf left) (sideOf right))
        | _ \<Rightarrow> One divider)
     else if type = js ''definition'' then
       One (definition_block (orString (i_term item) [])
              (orString (i_definition item) (orString (i_text item) [])) None)
     else if type = js ''step'' then
       One (step (orNumber (i_stepNumber item) 1) (orString (i_text item) []) (i_caption item) None)
     else if type = js ''exercice'' \<or> type = js ''exercise'' then
       One (exercice (orString (i_text item) (js ''Exercice''))
              (case i_instructions item of Some xs \<Rightarrow> xs | None \<Rightarrow> orArray (i_items item) [])
              (i_solution item))
     else if type = js ''quiz'' \<or> type = js ''quickQuiz'' then
       ofOption (quickQuiz (orString (i_question item) (orString (i_text item) []))
                   (Some (orArray (i_options item) [])) (orNumber (i_correctIndex item) 0))
     else if type = js ''summary'' \<or> type = js ''chapterSummary'' then
       One (chapterSummary (orArray (i_items item) []))
     else if type = js ''objectives'' \<or> type = js ''learningObjectives'' then
       One (learningObjectives
              (case i_objectives item of Some xs \<Rightarrow> xs | None \<Rightarrow> orArray (i_items item) []))
     else if type = js ''prerequisites'' then One (prerequisites (orArray (i_items item) []))
     else if type = js ''estimatedTime'' then One (estimatedTime (orNumber (i_minutes item) 30))
     else ofOption (paragraph_block
            (Str (orString (i_text item) (js ''[Type non reconnu: '' @ type @ js '']''))) None))"
  by pat_completeness auto
termination
  by (relation "measure (\<lambda>(accepts, c). size c)") (simp_all add: size_child)

declare buildCourseBlock.simps [simp del]

text \<open>The \<open>case\<close> labels of the \<open>switch\<close> of \<open>buildCourseBlock\<close>, in the order of the
  source: the dispatch table.\<close>

definition knownTypes :: "jsstring list" where
  "knownTypes =
    [js ''paragraph'', js ''heading1'', js ''heading2'', js ''heading3'', js ''quote'',
     js ''callout'', js ''info'', js ''warning'', js ''tip'', js ''danger'', js ''code'',
     js ''equation'', js ''codeWithExplanation'', js ''bullet'', js ''bulletedListItem'',
     js ''bullets'', js ''numbered'', js ''numberedListItem'', js ''numberedList'', js ''todo'',
     js ''todoList'', js ''toggle'', js ''image'', js ''video'', js ''audio'', js ''pdf'',
     js ''embed'', js ''bookmark'', js ''linkPreview'', js ''divider'', js ''tableOfContents'',
     js ''breadcrumb'', js ''table'', js ''columns'', js ''comparison'', js ''definition'',
     js ''step'', js ''exercice'', js ''exercise'', js ''quiz'', js ''quickQuiz'', js ''summary'',
     js ''chapterSummary'', js ''objectives'', js ''learningObjectives'', js ''prerequisites'',
     js ''estimatedTime'']"

text \<open>An item with a type tag and no other field.\<close>

definition itemOfType :: "jsstring \<Rightarrow> ItemFields" where
  "itemOfType t =
    \<lparr>i_type = t, i_text = None, i_items = None, i_code = None, i_language = None,
     i_caption = None, i_url = None, i_icon = None, i_color = None, i_checked = None,
     i_question = None, i_options = None, i_correctIndex = None, i_term = None,
     i_definition = None, i_stepNumber = None, i_instructions = None, i_solution = None,
     i_minutes = None, i_objectives = None, i_left = None, i_right = None,
     i_explanations = None, i_headers = None, i_rows = None, i_toggleable = None\<rparr>"

section \<open>The course validator\<close>

text \<open>
  The input of \<open>validateCourse\<close> has the type \<open>any\<close>.  The model takes the course
  description with every field absent or of its declared type, and with \<open>null\<close> where the
  claims speak of it: the course itself (\<open>None\<close> is \<open>null\<close> or \<open>undefined\<close>), a section
  and a content item.  An input that is a number, a string or a boolean reads like an
  object without fields.  Reading a property of \<open>null\<close> throws a \<open>TypeError\<close>.
\<close>

datatype error = TypeError | ClientNotInitialized | RemoteError

record Section =
  sec_title :: "jsstring option"
  sec_description :: "jsstring option"
  sec_color :: "jsstring option"
  sec_toggleable :: "bool option"
  sec_content :: "CourseContent option list option"

record Course =
  c_parentId :: "jsstring option"
  c_title :: "jsstring option"
  c_icon :: "jsstring option"
  c_cover :: "jsstring option"
  c_description :: "jsstring option"
  c_estimatedTime :: "int option"
  c_prerequisites :: "jsstring list option"
  c_objectives :: "jsstring list option"
  c_sections :: "Section option list option"

text \<open>The object without any field.\<close>

definition emptySection :: Section where
  "emptySection = \<lparr>sec_title = None, sec_description = None, sec_color = None,
     sec_toggleable = None, sec_content = None\<rparr>"

definition emptyCourse :: Course where
  "emptyCourse = \<lparr>c_parentId = None, c_title = None, c_icon = None, c_cover = None,
     c_description = None, c_estimatedTime = None, c_prerequisites = None, c_objectives = None,
     c_sections = None\<rparr>"

record ValidationResult =
  valid :: bool
  errors :: "jsstring list"
  warnings :: "jsstring list"

text \<open>The state of the two \<open>forEach\<close> loops: the arrays \<open>errors\<close> and \<open>warnings\<close>.\<close>

record Report =
  r_errors :: "jsstring list"
  r_warnings :: "jsstring list"

definition pushError :: "jsstring \<Rightarrow> Report \<Rightarrow> Report" where
  "pushError msg r = r\<lparr>r_errors := r_errors r @ [msg]\<rparr>"

definition pushWarning :: "jsstring \<Rightarrow> Report \<Rightarrow> Report" where
  "pushWarning msg r = r\<lparr>r_warnings := r_warnings r @ [msg]\<rparr>"

text \<open>The prefix \<open>Section ${idx + 1}\<close> of the messages.\<close>

definition sectionN :: "nat \<Rightarrow> jsstring" where
  "sectionN idx = js ''Section '' @ numberToString (int (idx + 1))"

text \<open>The body of the callback of \<open>section.content?.forEach\<close> on an item that is not
  \<open>null\<close>; it returns the new \<open>consecutiveParagraphs\<close> and the new report.\<close>

definition validateItem :: "url_parser \<Rightarrow> nat \<Rightarrow> ItemFields \<Rightarrow> nat \<times> Report \<Rightarrow> nat \<times> Report" where
  "validateItem accepts idx item state =
    (case state of (consecutiveParagraphs, r) \<Rightarrow>
     let (consecutiveParagraphs1, r1) =
           (if i_type item = js ''paragraph''
            then (let n = consecutiveParagraphs + 1
                  in (n, if n \<ge> 3
                         then pushWarning (sectionN idx @ js '': '' @ numberToString (int n) @
                                js '' paragraphes cons'' @ [0xE9] @
                                js ''cutifs. Variez les types de blocs!'') r
                         else r))
            else (0, r));
         r2 = (if i_type item = js ''quiz'' \<or> i_type item = js ''quickQuiz''
               then (let ra = (if (case i_options item of None \<Rightarrow> True
                                     | Some opts \<Rightarrow> length opts < 2)
                               then pushError (sectionN idx @ js '': Quiz avec trop peu d'' @
                                      [0x27] @ js ''options'') r1
                               else r1)
                     in if (case i_correctIndex item of None \<Rightarrow> False
                            | Some ci \<Rightarrow> ci \<ge> int (case i_options item of None \<Rightarrow> 0
                                                        | Some opts \<Rightarrow> length opts))
                        then pushError (sectionN idx @ js '': Quiz correctIndex invalide'') ra
                        else ra)
               else r1);
         r3 = (if (i_type item = js ''image'' \<or> i_type item = js ''video'' \<or>
                   i_type item = js ''audio'' \<or> i_type item = js ''pdf'') \<and>
                  (case i_url item of None \<Rightarrow> False | Some url \<Rightarrow> url \<noteq> [])
               then (if \<not> isValidUrl accepts (orString (i_url item) [])
                     then pushError (sectionN idx @ js '': URL invalide pour '' @ i_type item) r2
                     else r2)
               else r2);
         r4 = (case i_text item of
                 None \<Rightarrow> r3
               | Some t \<Rightarrow> if t \<noteq> [] \<and> length t > 2000
                   then pushWarning (sectionN idx @ js '': Texte trop long ('' @
                          numberToString (int (length t)) @ js '' chars)'') r3
                   else r3)
     in (consecutiveParagraphs1, r4))"

text \<open>\<open>section.content?.forEach\<close>: reading \<open>item.type\<close> of a \<open>null\<close> item throws.\<close>

fun validateItems :: "url_parser \<Rightarrow> nat \<Rightarrow> CourseContent option list \<Rightarrow> nat \<times> Report \<Rightarrow> error + Report" where
  "validateItems accepts idx [] state = Inr (snd state)"
| "validateItems accepts idx (None # items) state = Inl TypeError"
| "validateItems accepts idx (Some (Item item children) # items) state =
     validateItems accepts idx items (validateItem accepts idx item state)"

text \<open>The callback of \<open>course.sections?.forEach\<close> on a section that is not \<open>null\<close>.\<close>

definition validateSection :: "url_parser \<Rightarrow> nat \<Rightarrow> Section \<Rightarrow> Report \<Rightarrow> error + Report" where
  "validateSection accepts idx section r =
    (let r1 = (if (case sec_title section of None \<Rightarrow> True | Some t \<Rightarrow> t = [])
               then pushError (sectionN idx @ js '': titre manquant'') r else r);
         r2 = (if (case sec_content section of None \<Rightarrow> True | Some items \<Rightarrow> length items = 0)
               then pushError (sectionN idx @ js '': contenu manquant'') r1 else r1)
     in case sec_content section of
          None \<Rightarrow> Inr r2
        | Some items \<Rightarrow> validateItems accepts idx items (0, r2))"

text \<open>\<open>course.sections?.forEach\<close>: reading \<open>section.title\<close> of a \<open>null\<close> section throws,
  and an exception in a callback ends the loop.\<close>

fun validateSections :: "url_parser \<Rightarrow> nat \<Rightarrow> Section option list \<Rightarrow> Report \<Rightarrow> error + Report" where
  "validateSections accepts idx [] r = Inr r"
| "validateSections accepts idx (None # sections) r = Inl TypeError"
| "validateSections accepts idx (Some section # sections) r =
     (case validateSection accepts idx section r of
        Inl e \<Rightarrow> Inl e
      | Inr r' \<Rightarrow> validateSections accepts (idx + 1) sections r')"

definition validateCourse :: "url_parser \<Rightarrow> Course option \<Rightarrow> error + ValidationResult" where
  "validateCourse accepts input =
    (case input of
       None \<Rightarrow> Inl TypeError
     | Some course \<Rightarrow>
        (let r0 = \<lparr>r_errors = [], r_warnings = []\<rparr>;
             r1 = (if (case c_title course of None \<Rightarrow> True
                       | Some t \<Rightarrow> t = [] \<or> length (trim t) = 0)
                   then pushError (js ''Titre manquant'') r0 else r0);
             r2 = (if (case c_sections course of None \<Rightarrow> True
                       | Some sections \<Rightarrow> length sections = 0)
                   then pushError (js ''Au moins une section requise'') r1 else r1);
             looped = (case c_sections course of
                         None \<Rightarrow> Inr r2
                       | Some sections \<Rightarrow> validateSections accepts 0 sections r2)
         in (case looped of
               Inl e \<Rightarrow> Inl e
             | Inr r \<Rightarrow> Inr \<lparr>valid = (length (r_errors r) = 0), errors = r_errors r,
                              warnings = r_warnings r\<rparr>)))"

text \<open>A course without \<open>null\<close> in its arrays: every section is an object, and so is
  every item of a section's content.\<close>

definition itemsPresent :: "Section \<Rightarrow> bool" where
  "itemsPresent section = list_all (\<lambda>item. item \<noteq> None) (orArray (sec_content section) [])"

definition withoutNull :: "Course \<Rightarrow> bool" where
  "withoutNull course =
     list_all (\<lambda>s. case s of None \<Rightarrow> False | Some section \<Rightarrow> itemsPresent section)
       (orArray (c_sections course) [])"

section \<open>Recommendations\<close>

text \<open>
  The statistics hold counts.  A quotient of two counts in the arithmetic of the
  language is \<open>NaN\<close> for \<open>0/0\<close> and for an absent operand, \<open>Infinity\<close> for \<open>n/0\<close>, and a
  ratio otherwise; \<open>exceeds q a b\<close> is the comparison \<open>q > a/b\<close>, false for \<open>NaN\<close>.
\<close>

record Stats =
  totalBlocks :: "nat option"
  totalSections :: "nat option"
  blockTypes :: "(jsstring \<Rightarrow> nat option) option"

datatype quotient = NaN | Infinity | Ratio nat nat

definition divide_js :: "nat option \<Rightarrow> nat option \<Rightarrow> quotient" where
  "divide_js a b = (case (a, b) of
      (Some x, Some y) \<Rightarrow> if y = 0 then (if x = 0 then NaN else Infinity) else Ratio x y
    | _ \<Rightarrow> NaN)"

definition exceeds :: "quotient \<Rightarrow> nat \<Rightarrow> nat \<Rightarrow> bool" where
  "exceeds q a b = (case q of NaN \<Rightarrow> False | Infinity \<Rightarrow> True | Ratio x y \<Rightarrow> x * b > a * y)"

text \<open>\<open>!stats.blockTypes.k\<close>: the count is absent or 0.\<close>

definition none :: "(jsstring \<Rightarrow> nat option) \<Rightarrow> jsstring \<Rightarrow> bool" where
  "none counts k = (case counts k of None \<Rightarrow> True | Some n \<Rightarrow> n = 0)"

definition generateRecommendations :: "Stats option \<Rightarrow> error + jsstring list" where
  "generateRecommendations input =
    (case input of
       None \<Rightarrow> Inl TypeError
     | Some stats \<Rightarrow>
        (case blockTypes stats of
           None \<Rightarrow> Inl TypeError
         | Some counts \<Rightarrow>
            let paragraphRatio =
                  divide_js (Some (case counts (js ''paragraph'') of None \<Rightarrow> 0 | Some n \<Rightarrow> n))
                    (totalBlocks stats);
                rec1 = (if exceeds paragraphRatio 1 2
                        then [[0x26A0, 0xFE0F] @ js '' Trop de paragraphes (>50%). Ajoute plus d'' @
                              [0x27] @ js ''exercices, quiz ou blocs interactifs.'']
                        else []);
                rec2 = (if none counts (js ''exercice'') \<and> none counts (js ''exercise'')
                        then rec1 @ [[0xD83D, 0xDCA1] @ js '' Aucun exercice d'' @ [0xE9] @
                              js ''tect'' @ [0xE9] @
                              js ''. Ajoute des exercices pratiques pour renforcer l'' @ [0x27] @
                              js ''apprentissage.'']
                        else rec1);
                rec3 = (if none counts (js ''quiz'') \<and> none counts (js ''quickQuiz'')
                        then rec2 @ [[0xD83D, 0xDCA1] @ js '' Aucun quiz d'' @ [0xE9] @
                              js ''tect'' @ [0xE9] @
                              js ''. Ajoute des quiz pour valider la compr'' @ [0xE9] @
                              js ''hension.'']
                        else rec2);
                avgBlocksPerSection = divide_js (totalBlocks stats) (totalSections stats);
                rec4 = (if exceeds avgBlocksPerSection 15 1
                        then rec3 @ [[0x26A0, 0xFE0F] @
                              js '' Sections trop longues (>15 blocs en moyenne). D'' @ [0xE9] @
                              js ''coupe-les pour am'' @ [0xE9] @ js ''liorer la lisibilit'' @
                              [0xE9] @ js ''.'']
                        else rec3)
            in Inr (if length rec4 = 0
                    then [[0x2705] @ js '' Structure excellente ! Le cours est bien '' @ [0xE9] @
                          js ''quilibr'' @ [0xE9] @ js ''.'']
                    else rec4)))"

section \<open>The page materializer\<close>

text \<open>
  \<open>chunkArray\<close> is a loop on \<open>i\<close> that adds \<open>size\<close> each round; with \<open>size = 0\<close> it does
  not end, which is the value \<open>None\<close>.
\<close>

partial_function (option) chunkLoop :: "'a list \<Rightarrow> nat \<Rightarrow> nat \<Rightarrow> 'a list list \<Rightarrow> 'a list list option" where
  "chunkLoop array sz i chunks =
     (if i < length array then chunkLoop array sz (i + sz) (chunks @ [slice_js array i (i + sz)])
      else Some chunks)"

definition chunkArray :: "'a list \<Rightarrow> nat \<Rightarrow> 'a list list option" where
  "chunkArray array sz = chunkLoop array sz 0 []"

text \<open>
  One remote call \<open>client.blocks.children.append({block_id, children})\<close>.  The client is
  the service's: given the calls made so far, it says whether the next one resolves
  (\<open>True\<close>) or rejects.  \<open>appendBlocks\<close> awaits each call before the next, and a rejected
  call ends the loop.  The result is the exception, if any, and the calls issued in order.
\<close>

record 'b AppendCall =
  call_block_id :: jsstring
  call_children :: "'b list"

type_synonym 'b client = "'b AppendCall list \<Rightarrow> 'b AppendCall \<Rightarrow> bool"

fun appendChunks :: "'b client \<Rightarrow> jsstring \<Rightarrow> 'b list list \<Rightarrow> 'b AppendCall list \<Rightarrow> error option \<times> 'b AppendCall list" where
  "appendChunks client pageId [] calls = (None, calls)"
| "appendChunks client pageId (chunk # chunks) calls =
     (let call = \<lparr>call_block_id = pageId, call_children = chunk\<rparr>
      in if client calls call then appendChunks client pageId chunks (calls @ [call])
         else (Some RemoteError, calls @ [call]))"

definition appendBlocks :: "'b client option \<Rightarrow> jsstring \<Rightarrow> 'b list \<Rightarrow> (error option \<times> 'b AppendCall list) option" where
  "appendBlocks client pageId blocks =
    (case client of
       None \<Rightarrow> Some (Some ClientNotInitialized, [])
     | Some c \<Rightarrow>
        (let chunkSize = 100
         in case chunkArray blocks chunkSize of
              None \<Rightarrow> None
            | Some chunks \<Rightarrow> Some (appendChunks c pageId chunks [])))"

section \<open>The parent of a new course page\<close>

text \<open>The lines of the handler of \<open>/api/create-course\<close> that build \<open>parent\<close> and
  \<open>properties\<close> from \<open>parentId\<close> and \<open>title\<close>; a property holds the title's content.\<close>

datatype Parent = DatabaseId jsstring | PageId jsstring

definition courseParent :: "jsstring \<Rightarrow> Parent" where
  "courseParent parentId =
    (if length parentId = 32 \<and> 0x2D \<notin> set parentId then DatabaseId parentId
     else PageId parentId)"

definition courseProperties :: "jsstring \<Rightarrow> jsstring \<Rightarrow> (jsstring \<Rightarrow> jsstring option)" where
  "courseProperties parentId title =
    (let properties = [js ''title'' \<mapsto> title]
     in case courseParent parentId of
          DatabaseId d \<Rightarrow> (properties(js ''Name'' := properties (js ''title'')))(js ''title'' := None)
        | PageId p \<Rightarrow> properties)"

section \<open>The create-course handler\<close>

text \<open>
  The handler of \<open>POST /api/create-course\<close> up to the call
  \<open>notion.createPageWithMeta(pageData)\<close>: it answers 400 when a required field is missing
  or the validation fails, 500 when an exception is thrown, and otherwise submits
  \<open>pageData\<close>.
\<close>

record PageData =
  pd_parent :: Parent
  pd_properties :: "jsstring \<Rightarrow> jsstring option"
  pd_children :: "Block list"
  pd_icon :: "jsstring option"
  pd_cover :: "jsstring option"

datatype Outcome =
    MissingFields
  | ValidationFailed "jsstring list" "jsstring list"
  | InternalError error
  | CreatePage PageData

text \<open>The loop \<open>for (const item of section.content)\<close>; \<open>buildCourseBlock\<close> reads
  \<open>item.type\<close> first, which throws on \<open>null\<close>.\<close>

fun compileItems :: "url_parser \<Rightarrow> CourseContent option list \<Rightarrow> error + Block list" where
  "compileItems accepts [] = Inr []"
| "compileItems accepts (None # items) = Inl TypeError"
| "compileItems accepts (Some item # items) =
     (case compileItems accepts items of
        Inl e \<Rightarrow> Inl e
      | Inr blocks \<Rightarrow> Inr (asArray (buildCourseBlock accepts item) @ blocks))"

definition compileSection :: "url_parser \<Rightarrow> Section \<Rightarrow> error + Block list" where
  "compileSection accepts section =
    (let heading =
           heading1 (case sec_title section of None \<Rightarrow> Missing | Some t \<Rightarrow> Str t)
             (Some (noBuilderOptions\<lparr>b_color := Some (orString (sec_color section) (js ''blue'')),
                b_toggleable := sec_toggleable section\<rparr>));
         description =
           (case sec_description section of
              None \<Rightarrow> []
            | Some d \<Rightarrow>
                if d = [] then []
                else (case paragraph_block (Str d)
                             (Some (noBuilderOptions\<lparr>b_color := Some (js ''gray'')\<rparr>)) of
                        None \<Rightarrow> [] | Some descBlock \<Rightarrow> [descBlock]))
     in case sec_content section of
          None \<Rightarrow> Inl TypeError
        | Some items \<Rightarrow>
            (case compileItems accepts items of
               Inl e \<Rightarrow> Inl e
             | Inr blocks \<Rightarrow> Inr ([divider, heading] @ description @ blocks)))"

text \<open>The loop \<open>for (const section of sections)\<close>.\<close>

fun compileSections :: "url_parser \<Rightarrow> Section option list \<Rightarrow> error + Block list" where
  "compileSections accepts [] = Inr []"
| "compileSections accepts (None # sections) = Inl TypeError"
| "compileSections accepts (Some section # sections) =
     (case compileSection accepts section of
        Inl e \<Rightarrow> Inl e
      | Inr blocks \<Rightarrow>
          (case compileSections accepts sections of
             Inl e \<Rightarrow> Inl e
           | Inr rest \<Rightarrow> Inr (blocks @ rest)))"

definition courseHeader :: "Course \<Rightarrow> Block list" where
  "courseHeader body =
    (let description =
           (case c_description body of
              None \<Rightarrow> []
            | Some d \<Rightarrow>
                if d = [] then []
                else [callout (Str d)
                        (Some (noBuilderOptions\<lparr>b_icon := Some [0xD83D, 0xDCD6],
                           b_color := Some (js ''blue_background'')\<rparr>))]);
         metaColumns =
           (case c_estimatedTime body of
              None \<Rightarrow> [] | Some n \<Rightarrow> if n = 0 then [] else [[estimatedTime n]]) @
           (case c_prerequisites body of
              None \<Rightarrow> [] | Some ps \<Rightarrow> if length ps > 0 then [[prerequisites ps]] else []) @
           (case c_objectives body of
              None \<Rightarrow> [] | Some os \<Rightarrow> if length os > 0 then [[learningObjectives os]] else []);
         meta =
           (if length metaColumns > 0
            then (if length metaColumns = 1 then concat metaColumns
                  else [columnList metaColumns]) @ [divider]
            else [])
     in [breadcrumb, tableOfContents (Some (js ''gray'')), divider] @ description @ meta)"

definition courseFooter :: "Block list" where
  "courseFooter =
    [divider,
     callout (Str (js ''F'' @ [0xE9] @ js ''licitations ! Vous avez termin'' @ [0xE9] @ js '' ce cours.''))
       (Some (noBuilderOptions\<lparr>b_icon := Some [0xD83C, 0xDF89],
          b_color := Some (js ''green_background'')\<rparr>))]"

definition createCourse :: "url_parser \<Rightarrow> Course \<Rightarrow> Outcome" where
  "createCourse accepts body =
    (if orString (c_parentId body) [] = [] \<or> orString (c_title body) [] = [] \<or>
        c_sections body = None
     then MissingFields
     else
       (case validateCourse accepts (Some body) of
          Inl e \<Rightarrow> InternalError e
        | Inr validation \<Rightarrow>
            if \<not> valid validation
            then ValidationFailed (errors validation) (warnings validation)
            else
              (let parentId = orString (c_parentId body) [];
                   title = orString (c_title body) []
               in case compileSections accepts (orArray (c_sections body) []) of
                    Inl e \<Rightarrow> InternalError e
                  | Inr sectionBlocks \<Rightarrow>
                      CreatePage
                        \<lparr>pd_parent = courseParent parentId,
                         pd_properties = courseProperties parentId title,
                         pd_children = courseHeader body @ sectionBlocks @ courseFooter,
                         pd_icon = (case c_icon body of None \<Rightarrow> None
                                    | Some i \<Rightarrow> if i = [] then None else Some i),
                         pd_cover = (case c_cover body of None \<Rightarrow> None
                                     | Some c \<Rightarrow> if c = [] then None else Some c)\<rparr>)))"

text \<open>A course of one section with one divider, under a given parent.\<close>

definition smallCourse :: "jsstring \<Rightarrow> Course" where
  "smallCourse parentId =
     emptyCourse\<lparr>c_parentId := Some parentId, c_title := Some (js ''T''),
       c_sections := Some [Some (emptySection\<lparr>sec_title := Some (js ''S''),
         sec_content := Some [Some (Item (itemOfType (js ''divider'')) None)]\<rparr>)]\<rparr>"

section \<open>Notions used in the statements\<close>

text \<open>The code units that can start or end a token of the inline formatter: \<open>*\<close>,
  the backquote, \<open>~\<close>, and \<open>(\<close> (without which no link matches).\<close>

definition markers :: "code_unit set" where
  "markers = {0x2A, 0x60, 0x7E, 0x28}"

text \<open>The visible text of a block: the contents of its runs, in order.\<close>

definition visibleText :: "RichText list \<Rightarrow> jsstring" where
  "visibleText rts = concat (map content rts)"


definition boldAnnotations :: Annotations where
  "boldAnnotations = defaultAnnotations\<lparr>a_bold := True\<rparr>"

section \<open>Facts about trimming\<close>

lemma js_simps: "js [] = []" "js (c # cs) = of_nat (of_char c) # js cs"
  by (simp_all add: js_def)

lemma length_js [simp]: "length (js s) = length s"
  by (simp add: js_def)

lemma trim_Nil [simp]: "trim [] = []"
  by (simp add: trim_def trimEnd_def trimStart_def)

lemma trim_all_space:
  assumes "\<forall>c\<in>set s. isSpace c"
  shows "trim s = []"
proof -
  from assms have "dropWhile isSpace s = []" by simp
  then show ?thesis by (simp add: trim_def trimEnd_def trimStart_def del: dropWhile_eq_Nil_conv)
qed

lemma length_trim_le: "length (trim s) \<le> length s"
proof -
  have "length (trim s) \<le> length (trimStart s)"
    unfolding trim_def trimEnd_def using length_dropWhile_le [of isSpace "rev (trimStart s)"] by simp
  also have "\<dots> \<le> length s"
    unfolding trimStart_def by (rule length_dropWhile_le)
  finally show ?thesis .
qed

lemma trim_id:
  assumes "s \<noteq> []" and "\<not> isSpace (hd s)" and "\<not> isSpace (last s)"
  shows "trim s = s"
proof -
  from assms(1,2) have a: "trimStart s = s"
    by (cases s) (simp_all add: trimStart_def)
  from assms(1,3) have "dropWhile isSpace (rev s) = rev s"
    by (cases "rev s") (simp_all add: last_rev [symmetric] hd_rev)
  with a show ?thesis by (simp add: trim_def trimEnd_def)
qed

lemma trim_ends:
  assumes "trim s \<noteq> []"
  shows "\<not> isSpace (hd (trim s))" and "\<not> isSpace (last (trim s))"
proof -
  let ?t = "dropWhile isSpace (rev (trimStart s))"
  from assms have ne: "?t \<noteq> []" by (simp add: trim_def trimEnd_def)
  then have h: "\<not> isSpace (hd ?t)" by (rule hd_dropWhile)
  from ne show "\<not> isSpace (last (trim s))"
    using h by (simp add: trim_def trimEnd_def last_rev)
  from ne have "trimStart s \<noteq> []" by auto
  then have "\<not> isSpace (hd (trimStart s))"
    unfolding trimStart_def by (rule hd_dropWhile)
  moreover have "hd (trim s) = hd (trimStart s)"
  proof -
    obtain ys where ys: "rev (trimStart s) = ys @ ?t"
      by (metis takeWhile_dropWhile_id)
    then have "trimStart s = rev ?t @ rev ys" by (metis rev_append rev_rev_ident)
    moreover from ne have "rev ?t \<noteq> []" by simp
    ultimately have "hd (trimStart s) = hd (rev ?t)" by (metis hd_append2)
    then show ?thesis by (simp add: trim_def trimEnd_def)
  qed
  ultimately show "\<not> isSpace (hd (trim s))" by simp
qed

lemma trim_trim [simp]: "trim (trim s) = trim s"
proof (cases "trim s = []")
  case True
  then show ?thesis by simp
next
  case False
  then show ?thesis by (intro trim_id trim_ends)
qed

section \<open>The single-run constructor\<close>

lemma richText_content:
  "content (richText s opts) =
     (if trim s = [] then js '' ''
      else if length (trim s) > 2000 then take 1997 (trim s) @ js ''...''
      else trim s)"
  by (simp add: richText_def Let_def substring0_def)

text \<open>
  C2.  The run built by \<open>richText\<close> never has empty content, and an input that is empty
  or consists only of white space (what \<open>trim\<close> strips) gives the run whose content is
  one space.
\<close>

theorem richText_never_empty:
  "content (richText s opts) \<noteq> [] \<and>
   ((\<forall>c\<in>set s. isSpace c) \<longrightarrow> content (richText s opts) = js '' '')"
  by (simp add: richText_content trim_all_space js_simps)

theorem richText_never_empty_witness:
  "list_all isSpace (js ''  '') \<and> content (richText (js ''  '') None) = js '' '' \<and>
   content (richText [] None) = js '' ''"
  using richText_never_empty [of "js ''  ''" None] richText_never_empty [of "[]" None]
  by (simp add: isSpace_def isWhiteSpace_def js_simps)

text \<open>
  C3 as stated fails: the length test is made after trimming, so an input of 2001 spaces
  is longer than 2000 and its run does not end with the ellipsis.
\<close>

theorem richText_long_input_counterexample:
  "length (replicate 2001 (0x20 :: code_unit)) > 2000 \<and>
   \<not> suffix (js ''...'') (content (richText (replicate 2001 0x20) None))"
proof -
  have "trim (replicate 2001 (0x20 :: code_unit)) = []"
    by (rule trim_all_space) (simp add: isSpace_def isWhiteSpace_def)
  then show ?thesis
    by (simp add: richText_content suffix_def js_simps)
qed

text \<open>
  C3, amended.  The content of a run never exceeds 2000 code units; when the trimmed
  input is longer than 2000 code units the content is its first 1997 code units followed
  by the ellipsis, so it has length 2000 and ends with \<open>...\<close>.
\<close>

theorem richText_truncates:
  "length (content (richText s opts)) \<le> 2000 \<and>
   (length (trim s) > 2000 \<longrightarrow>
      content (richText s opts) = take 1997 (trim s) @ js ''...'' \<and>
      length (content (richText s opts)) = 2000 \<and>
      suffix (js ''...'') (content (richText s opts)))"
  by (auto simp add: richText_content suffix_def)

theorem richText_truncates_witness:
  "length (trim (replicate 2001 (0x61 :: code_unit))) > 2000 \<and>
   content (richText (replicate 2001 0x61) None) = replicate 1997 0x61 @ js ''...'' \<and>
   length (content (richText (replicate 2001 0x61) None)) = 2000"
proof -
  have t: "trim (replicate 2001 (0x61 :: code_unit)) = replicate 2001 0x61"
    by (rule trim_id) (simp_all add: isSpace_def isWhiteSpace_def isLineTerminator_def)
  have l: "length (trim (replicate 2001 (0x61 :: code_unit))) > 2000"
    by (simp add: t)
  from richText_truncates [of "replicate 2001 0x61" None] l
  show ?thesis by (simp add: t)
qed

section \<open>The inline formatter on bold followed by italic\<close>

lemmas eval_defs =
  parseFormattedText_def patterns_def found_def noOptions_def richText_def trim_def trimEnd_def trimStart_def
  isSpace_def isWhiteSpace_def isLineTerminator_def startsWith_def slice_js_def sliceFrom_def
  substring0_def flag_def truthyString_def plain_def styled_def defaultAnnotations_def Let_def
  findTokens.simps js_simps

lemma parse_bold_italic:
  "parseFormattedText (js ''**a** and *b*'') =
     [styled (js ''a'') (defaultAnnotations\<lparr>a_bold := True\<rparr>), plain (js ''and *b*'')]"
  by (simp add: eval_defs)

lemma overlapping_dropped:
  "list_all (\<lambda>t. t_start t < lastEnd) overlapping \<Longrightarrow>
   buildSegments str (overlapping @ tokens) lastEnd segments =
     buildSegments str tokens lastEnd segments"
  by (induction overlapping) simp_all

text \<open>
  C1 as stated fails.  The italic pattern \<open>\*(.+?)\*\<close> also matches \<open>**a*\<close> at offset 0
  and \<open>* and *\<close> at offset 4; both tokens start before the end of the bold token and are
  dropped, so the rest of the text is one plain run, and \<open>richText\<close> trims it.
\<close>

theorem parseFormattedText_bold_italic_counterexample:
  "parseFormattedText (js ''**a** and *b*'') =
     [styled (js ''a'') (defaultAnnotations\<lparr>a_bold := True\<rparr>), plain (js ''and *b*'')] \<and>
   length (parseFormattedText (js ''**a** and *b*'')) \<noteq> 3"
  using parse_bold_italic by simp

text \<open>
  C1, amended.  On \<open>**a** and *b*\<close> the first run is the bold run with content \<open>a\<close>,
  and every run has content without white space at either end (so none has the content
  \<open> and \<close> with its spaces).  For every text the tokens are taken in the order of their
  start offsets, and tokens that start before the end of the last token kept add nothing.
\<close>

theorem parseFormattedText_bold_first:
  "hd (parseFormattedText (js ''**a** and *b*'')) =
     styled (js ''a'') (defaultAnnotations\<lparr>a_bold := True\<rparr>) \<and>
   list_all (\<lambda>r. trim (content r) = content r) (parseFormattedText (js ''**a** and *b*'')) \<and>
   sorted (map t_start (sort_key t_start (concat (map (\<lambda>p. findTokens p 0 str) patterns)))) \<and>
   (list_all (\<lambda>t. t_start t < lastEnd) overlapping \<longrightarrow>
      buildSegments str (overlapping @ tokens) lastEnd segments =
        buildSegments str tokens lastEnd segments)"
  using parse_bold_italic overlapping_dropped [of lastEnd overlapping str tokens segments]
  by (simp add: plain_def styled_def trim_def trimEnd_def trimStart_def isSpace_def isWhiteSpace_def
      isLineTerminator_def js_simps)

theorem parseFormattedText_bold_first_witness:
  "list_all (\<lambda>t. t_start t < 7)
     [\<lparr>t_start = 2, t_end = 5, t_text = js ''a'',
       t_style = noOptions\<lparr>o_code := Some True\<rparr>, t_link = None\<rparr>] \<and>
   buildSegments (js ''~~`a`~~'')
     [\<lparr>t_start = 2, t_end = 5, t_text = js ''a'',
       t_style = noOptions\<lparr>o_code := Some True\<rparr>, t_link = None\<rparr>] 7 [] = (7, [])"
  using parseFormattedText_bold_first [of "js ''~~`a`~~''" 7
      "[\<lparr>t_start = 2, t_end = 5, t_text = js ''a'',
         t_style = noOptions\<lparr>o_code := Some True\<rparr>, t_link = None\<rparr>]" "[]" "[]"]
  by simp

section \<open>Text without inline markers\<close>

lemma startsWith_set: "startsWith s l \<Longrightarrow> set l \<subseteq> set s"
  unfolding startsWith_def by (metis set_take_subset)

lemma lazyPlus_None:
  assumes "c \<in> set l" and "c \<notin> set s"
  shows "lazyPlus (Lit l # ns) s = None"
  using assms(2)
proof (induction s)
  case Nil
  then show ?case by simp
next
  case (Cons x xs)
  then have "\<not> startsWith xs l" using assms(1) startsWith_set by fastforce
  with Cons show ?case by simp
qed

lemma matchAt_None:
  assumes "c \<in> set l" and "c \<notin> set s"
  shows "matchAt (Regex opening (Lit l # ns)) s = None"
proof -
  from assms(2) have "c \<notin> set (drop (length opening) s)"
    by (meson in_set_dropD)
  with assms(1) show ?thesis by (simp add: lazyPlus_None)
qed

lemma exec_None:
  assumes "c \<in> set l" and "c \<notin> set s"
  shows "exec (Regex opening (Lit l # ns)) i s = None"
  using assms(2)
proof (induction s arbitrary: i)
  case Nil
  then show ?case by simp
next
  case (Cons x xs)
  have "matchAt (Regex opening (Lit l # ns)) (x # xs) = None"
    using assms(1) Cons.prems by (rule matchAt_None)
  moreover have "exec (Regex opening (Lit l # ns)) (Suc i) xs = None"
    using Cons by simp
  ultimately show ?case by simp
qed

lemma findTokens_Nil:
  assumes "regex p = Regex opening (Lit l # ns)" and "c \<in> set l" and "c \<notin> set s"
  shows "findTokens p i s = []"
  using exec_None [OF assms(2,3)] assms(1) by (simp add: findTokens.simps)

lemma parse_no_markers:
  assumes "set text \<inter> markers = {}"
  shows "parseFormattedText text = [richText text None]"
proof -
  from assms have a: "0x2A \<notin> set text" "0x60 \<notin> set text" "0x7E \<notin> set text" "0x28 \<notin> set text"
    by (auto simp: markers_def)
  have t: "concat (map (\<lambda>p. findTokens p 0 text) patterns) = []"
    unfolding patterns_def using a
    by (simp add: findTokens_Nil [where c = "0x2A"] findTokens_Nil [where c = "0x60"]
        findTokens_Nil [where c = "0x7E"] findTokens_Nil [where c = "0x28"] js_simps)
  show ?thesis unfolding parseFormattedText_def t by simp
qed

lemma parseFormattedText_nonempty: "parseFormattedText text \<noteq> []"
  by (simp add: parseFormattedText_def Let_def split: prod.splits)

lemma paragraph_block_Str:
  "paragraph_block (Str s) None =
     (if trim s = [] then None
      else Some (Paragraph (parseFormattedText (trim s)) (js ''default'') None))"
  by (simp add: paragraph_block_def toRichTextArray_def parseMarkdownOf_def colorOf_def
      childrenOf_def Let_def parseFormattedText_nonempty)

lemma trim_bracketed: "trim (0x5B # m @ [0x5D]) = 0x5B # m @ [0x5D]"
  by (rule trim_id) (simp_all add: isSpace_def isWhiteSpace_def isLineTerminator_def)

lemma richText_plain:
  assumes "trim s = s" and "s \<noteq> []" and "length s \<le> 2000"
  shows "richText s None = plain s"
  using assms by (simp add: richText_def plain_def Let_def truthyString_def flag_def
      defaultAnnotations_def)

lemma paragraph_bracketed:
  "\<exists>rts. rts \<noteq> [] \<and>
     paragraph_block (Str (0x5B # m @ [0x5D])) None = Some (Paragraph rts (js ''default'') None)"
  using trim_bracketed [of m]
  by (simp add: paragraph_block_Str parseFormattedText_nonempty)

lemma paragraph_bracketed_plain:
  assumes "set m \<inter> markers = {}" and "length m \<le> 1998"
  shows "paragraph_block (Str (0x5B # m @ [0x5D])) None =
     Some (Paragraph [plain (0x5B # m @ [0x5D])] (js ''default'') None)"
proof -
  let ?t = "0x5B # m @ [0x5D]"
  have t: "trim ?t = ?t" by (rule trim_bracketed)
  from assms(1) have "set ?t \<inter> markers = {}" by (simp add: markers_def)
  then have "parseFormattedText ?t = [richText ?t None]" by (rule parse_no_markers)
  moreover have "richText ?t None = plain ?t"
    using t assms(2) by (intro richText_plain) simp_all
  ultimately show ?thesis using t by (simp add: paragraph_block_Str)
qed

lemma urlScheme_data:
  "urlScheme (js ''data:,'' @ replicate n 0x41) = Some (js ''data'', 0x2C # replicate n 0x41)"
proof -
  have s: "rev (dropWhile isC0ControlOrSpace (rev (dropWhile isC0ControlOrSpace
      (js ''data:,'' @ replicate n 0x41)))) = js ''data:,'' @ replicate n 0x41"
    by (cases n) (simp_all add: isC0ControlOrSpace_def js_simps dropWhile_append)
  show ?thesis
    unfolding urlScheme_def s
    by (simp add: isAsciiTabOrNewline_def filter_replicate isAsciiUpper_def isAsciiLower_def
        isAsciiDigit_def isSchemeChar_def asciiLower_def js_simps)
qed

lemma data_url_invalid: "\<not> isValidUrl accepts (js ''data:,'' @ replicate n 0x41)"
  unfolding isValidUrl_def urlScheme_data by (simp add: js_simps)

lemma data_url_message:
  "image_block accepts (js ''data:,'' @ replicate 2000 0x41) None =
     Some (Paragraph [plain (js ''[Image invalide: data:,'' @ replicate 1974 0x41 @ js ''...'')]
       (js ''default'') None)"
proof -
  let ?m = "js ''Image invalide: data:,'' @ replicate 2000 0x41"
  let ?t = "0x5B # ?m @ [0x5D]"
  have t: "trim ?t = ?t" by (rule trim_bracketed)
  have "set ?t \<inter> markers = {}" by (simp add: markers_def js_simps)
  then have p: "parseFormattedText ?t = [richText ?t None]" by (rule parse_no_markers)
  have r: "richText ?t None = plain (take 1997 ?t @ js ''...'')"
    unfolding richText_def t
    by (simp add: plain_def Let_def truthyString_def flag_def defaultAnnotations_def substring0_def)
  have k: "take 1997 ?t = js ''[Image invalide: data:,'' @ replicate 1974 0x41"
    by (simp add: js_simps)
  have e: "js ''[Image invalide: '' @ (js ''data:,'' @ replicate 2000 0x41) @ js '']'' = ?t"
    by (simp add: js_simps)
  have n: "?t \<noteq> []" by simp
  show ?thesis
    unfolding image_block_def e paragraph_block_Str t p r k
    using data_url_invalid [of accepts 2000] n by simp
qed

lemma data_url_not_named:
  "\<not> sublist (js ''data:,'' @ replicate 2000 0x41)
      (visibleText [plain (js ''[Image invalide: data:,'' @ replicate 1974 0x41 @ js ''...'')])"
proof
  assume "sublist (js ''data:,'' @ replicate 2000 0x41)
      (visibleText [plain (js ''[Image invalide: data:,'' @ replicate 1974 0x41 @ js ''...'')])"
  then have "length (js ''data:,'' @ replicate 2000 (0x41 :: code_unit)) \<le>
      length (visibleText [plain (js ''[Image invalide: data:,'' @ replicate 1974 0x41 @ js ''...'')])"
    by (rule sublist_length_le)
  then show False by (simp add: visibleText_def plain_def)
qed

lemma italic_url_message:
  "\<not> isValidUrl (\<lambda>scheme rest. True) (js ''*a*'') \<and>
   image_block (\<lambda>scheme rest. True) (js ''*a*'') None =
     Some (Paragraph
       [plain (js ''[Image invalide:''),
        styled (js ''a'') (defaultAnnotations\<lparr>a_italic := True\<rparr>),
        plain (js '']'')] (js ''default'') None) \<and>
   visibleText
       [plain (js ''[Image invalide:''),
        styled (js ''a'') (defaultAnnotations\<lparr>a_italic := True\<rparr>),
        plain (js '']'')] = js ''[Image invalide:a]'' \<and>
   \<not> sublist (js ''*a*'') (js ''[Image invalide:a]'')"
proof -
  have "\<not> set (js ''*a*'') \<subseteq> set (js ''[Image invalide:a]'')"
    by (simp add: js_simps)
  then have "\<not> sublist (js ''*a*'') (js ''[Image invalide:a]'')"
    using set_mono_sublist by blast
  moreover have "\<not> isValidUrl (\<lambda>scheme rest. True) (js ''*a*'')"
    by (simp add: isValidUrl_def urlScheme_def isC0ControlOrSpace_def isAsciiTabOrNewline_def
        isAsciiUpper_def isAsciiLower_def js_simps)
  moreover have "paragraph_block (Str (js ''[Image invalide: *a*]'')) None =
     Some (Paragraph
       [plain (js ''[Image invalide:''),
        styled (js ''a'') (defaultAnnotations\<lparr>a_italic := True\<rparr>),
        plain (js '']'')] (js ''default'') None)"
    by (simp add: paragraph_block_def toRichTextArray_def parseMarkdownOf_def colorOf_def
        childrenOf_def eval_defs)
  ultimately show ?thesis
    by (simp add: image_block_def visibleText_def plain_def styled_def js_simps)
qed

text \<open>
  C6 as stated fails.  The message goes through the inline formatter, which takes the
  URL \<open>*a*\<close> for italic text, so the visible text of the paragraph is
  \<open>[Image invalide:a]\<close> and does not name the URL; and \<open>richText\<close> cuts a run at 2000
  code units, so a \<open>data:\<close> URL of 2006 code units is not in the visible text either.
\<close>

theorem invalid_url_counterexample:
  "\<not> isValidUrl (\<lambda>scheme rest. True) (js ''*a*'') \<and>
   image_block (\<lambda>scheme rest. True) (js ''*a*'') None =
     Some (Paragraph
       [plain (js ''[Image invalide:''),
        styled (js ''a'') (defaultAnnotations\<lparr>a_italic := True\<rparr>),
        plain (js '']'')] (js ''default'') None) \<and>
   visibleText
       [plain (js ''[Image invalide:''),
        styled (js ''a'') (defaultAnnotations\<lparr>a_italic := True\<rparr>),
        plain (js '']'')] = js ''[Image invalide:a]'' \<and>
   \<not> sublist (js ''*a*'') (js ''[Image invalide:a]'') \<and>
   \<not> isValidUrl (\<lambda>scheme rest. True) (js ''data:,'' @ replicate 2000 0x41) \<and>
   image_block (\<lambda>scheme rest. True) (js ''data:,'' @ replicate 2000 0x41) None =
     Some (Paragraph [plain (js ''[Image invalide: data:,'' @ replicate 1974 0x41 @ js ''...'')]
       (js ''default'') None) \<and>
   \<not> sublist (js ''data:,'' @ replicate 2000 0x41)
      (visibleText [plain (js ''[Image invalide: data:,'' @ replicate 1974 0x41 @ js ''...'')])"
  using italic_url_message data_url_invalid [of "\<lambda>scheme rest. True" 2000]
    data_url_message [of "\<lambda>scheme rest. True"] data_url_not_named
  by blast

text \<open>
  C6, amended.  For a URL that \<open>isValidUrl\<close> rejects, each of the seven builders returns
  a paragraph block with at least one run (never \<open>null\<close>, never a media block), made by
  the inline formatter from its message.  When the URL has none of the code units
  \<open>* ` ~ (\<close> and at most 1979 code units, the paragraph is one plain run whose content is
  the message with the URL in it.
\<close>

theorem invalid_url_degrades:
  assumes "\<not> isValidUrl accepts url"
  shows
   "(\<exists>rts. rts \<noteq> [] \<and> image_block accepts url caption = Some (Paragraph rts (js ''default'') None)) \<and>
    (\<exists>rts. rts \<noteq> [] \<and> video accepts url caption = Some (Paragraph rts (js ''default'') None)) \<and>
    (\<exists>rts. rts \<noteq> [] \<and> audio accepts url caption = Some (Paragraph rts (js ''default'') None)) \<and>
    (\<exists>rts. rts \<noteq> [] \<and> pdf accepts url caption = Some (Paragraph rts (js ''default'') None)) \<and>
    (\<exists>rts. rts \<noteq> [] \<and> file_block accepts url name caption = Some (Paragraph rts (js ''default'') None)) \<and>
    (\<exists>rts. rts \<noteq> [] \<and> embed_block accepts url = Some (Paragraph rts (js ''default'') None)) \<and>
    (\<exists>rts. rts \<noteq> [] \<and> bookmark accepts url caption = Some (Paragraph rts (js ''default'') None)) \<and>
    (set url \<inter> markers = {} \<and> length url \<le> 1979 \<longrightarrow>
       image_block accepts url caption =
         Some (Paragraph [plain (js ''[Image invalide: '' @ url @ js '']'')] (js ''default'') None) \<and>
       video accepts url caption =
         Some (Paragraph [plain (js ''[Vid'' @ [0xE9] @ js ''o invalide: '' @ url @ js '']'')]
                 (js ''default'') None) \<and>
       audio accepts url caption =
         Some (Paragraph [plain (js ''[Audio invalide: '' @ url @ js '']'')] (js ''default'') None) \<and>
       pdf accepts url caption =
         Some (Paragraph [plain (js ''[PDF invalide: '' @ url @ js '']'')] (js ''default'') None) \<and>
       file_block accepts url name caption =
         Some (Paragraph [plain (js ''[Fichier invalide: '' @ url @ js '']'')] (js ''default'') None) \<and>
       embed_block accepts url =
         Some (Paragraph [plain (js ''[Embed invalide: '' @ url @ js '']'')] (js ''default'') None) \<and>
       bookmark accepts url caption =
         Some (Paragraph [plain (js ''[Bookmark invalide: '' @ url @ js '']'')] (js ''default'') None))"
proof -
  have general: "\<exists>rts. rts \<noteq> [] \<and>
      paragraph_block (Str (0x5B # (label @ url) @ [0x5D])) None =
        Some (Paragraph rts (js ''default'') None)" for label
    by (rule paragraph_bracketed)
  have plainly: "paragraph_block (Str (0x5B # (label @ url) @ [0x5D])) None =
      Some (Paragraph [plain (0x5B # (label @ url) @ [0x5D])] (js ''default'') None)"
    if "set url \<inter> markers = {}" "length url \<le> 1979"
      "set label \<inter> markers = {}" "length label \<le> 19" for label
    using that by (intro paragraph_bracketed_plain) auto
  have labels:
    "set (js ''Image invalide: '') \<inter> markers = {}"
    "set (js ''Vid'' @ [0xE9] @ js ''o invalide: '') \<inter> markers = {}"
    "set (js ''Audio invalide: '') \<inter> markers = {}"
    "set (js ''PDF invalide: '') \<inter> markers = {}"
    "set (js ''Fichier invalide: '') \<inter> markers = {}"
    "set (js ''Embed invalide: '') \<inter> markers = {}"
    "set (js ''Bookmark invalide: '') \<inter> markers = {}"
    by (simp_all add: markers_def js_simps)
  show ?thesis
    using assms
      general [of "js ''Image invalide: ''"]
      general [of "js ''Vid'' @ [0xE9] @ js ''o invalide: ''"]
      general [of "js ''Audio invalide: ''"]
      general [of "js ''PDF invalide: ''"]
      general [of "js ''Fichier invalide: ''"]
      general [of "js ''Embed invalide: ''"]
      general [of "js ''Bookmark invalide: ''"]
      plainly [of "js ''Image invalide: ''"]
      plainly [of "js ''Vid'' @ [0xE9] @ js ''o invalide: ''"]
      plainly [of "js ''Audio invalide: ''"]
      plainly [of "js ''PDF invalide: ''"]
      plainly [of "js ''Fichier invalide: ''"]
      plainly [of "js ''Embed invalide: ''"]
      plainly [of "js ''Bookmark invalide: ''"]
      labels
    by (simp add: image_block_def video_def audio_def pdf_def file_block_def embed_block_def
        bookmark_def js_simps)
qed

theorem invalid_url_degrades_witness:
  "\<not> isValidUrl (\<lambda>scheme rest. True) (js ''ftp://x'') \<and>
   image_block (\<lambda>scheme rest. True) (js ''ftp://x'') None =
     Some (Paragraph [plain (js ''[Image invalide: ftp://x]'')] (js ''default'') None) \<and>
   bookmark (\<lambda>scheme rest. True) (js ''ftp://x'') None =
     Some (Paragraph [plain (js ''[Bookmark invalide: ftp://x]'')] (js ''default'') None)"
proof -
  have v: "\<not> isValidUrl (\<lambda>scheme rest. True) (js ''ftp://x'')"
    by (simp add: isValidUrl_def urlScheme_def isC0ControlOrSpace_def isAsciiTabOrNewline_def
        isAsciiUpper_def isAsciiLower_def isAsciiDigit_def isSchemeChar_def asciiLower_def js_simps)
  have m: "set (js ''ftp://x'') \<inter> markers = {}" "length (js ''ftp://x'') \<le> 1979"
    by (simp_all add: markers_def js_simps)
  from invalid_url_degrades [OF v, of None None] m v
  show ?thesis by (simp add: js_simps)
qed

section \<open>The quiz template\<close>






section \<open>The exercise template\<close>

lemma trimEnd_Cons:
  "trimEnd (c # cs) = (if (\<forall>x\<in>set cs. isSpace x) \<and> isSpace c then [] else c # trimEnd cs)"
  by (auto simp: trimEnd_def dropWhile_append)

lemma trimEnd_all: "\<forall>x\<in>set xs. isSpace x \<Longrightarrow> trimEnd xs = []"
  by (simp add: trimEnd_def)

lemma trimStart_trimEnd: "trimStart (trimEnd xs) = trimEnd (trimStart xs)"
proof (induction xs)
  case Nil
  then show ?case by (simp add: trimEnd_def trimStart_def)
next
  case (Cons c cs)
  show ?case
  proof (cases "isSpace c")
    case True
    then show ?thesis using Cons by (auto simp: trimEnd_Cons trimEnd_all trimStart_def)
  next
    case False
    then show ?thesis by (simp add: trimEnd_Cons trimStart_def)
  qed
qed

lemma trimEnd_idem: "trimEnd (trimEnd xs) = trimEnd xs"
  by (simp add: trimEnd_def)

lemma trim_trimEnd: "trim (trimEnd xs) = trim xs"
  by (simp add: trim_def trimStart_trimEnd trimEnd_idem)

lemma trim_trimStart: "trim (trimStart xs) = trim xs"
  by (simp add: trim_def trimStart_def)

lemma trimEnd_append:
  assumes "a \<noteq> []" and "\<not> isSpace (last a)"
  shows "trimEnd (a @ r) = a @ trimEnd r"
proof -
  from assms have a: "dropWhile isSpace (rev a) = rev a"
    by (cases "rev a") (simp_all add: last_rev [symmetric] hd_rev)
  show ?thesis
  proof (cases "\<forall>x\<in>set r. isSpace x")
    case True
    then have "dropWhile isSpace (rev r) = []" by simp
    with True a show ?thesis
      by (simp add: trimEnd_def dropWhile_append del: dropWhile_eq_Nil_conv)
  next
    case False
    then show ?thesis by (auto simp add: trimEnd_def dropWhile_append)
  qed
qed

lemma trim_append:
  assumes "a \<noteq> []" and "\<not> isSpace (hd a)" and "\<not> isSpace (last a)"
  shows "trim (a @ r) = a @ trimEnd r"
proof -
  from assms(1,2) have "trimStart (a @ r) = a @ r"
    by (cases a) (simp_all add: trimStart_def)
  with assms(1,3) show ?thesis by (simp add: trim_def trimEnd_append)
qed

lemma trim_nonempty:
  assumes "s \<noteq> []" and "\<not> isSpace (hd s)"
  shows "trim s \<noteq> []"
proof -
  from assms have "trimStart s = s" by (cases s) (simp_all add: trimStart_def)
  moreover from assms have "\<not> (\<forall>x\<in>set s. isSpace x)" by (cases s) auto
  ultimately show ?thesis by (simp add: trim_def trimEnd_def)
qed

lemma content_richText_visible:
  assumes "trim s \<noteq> []"
  shows "trim (content (richText s opts)) \<noteq> []"
proof -
  have h: "\<not> isSpace (hd (trim s))" using assms by (rule trim_ends)
  show ?thesis
  proof (cases "length (trim s) > 2000")
    case True
    then have "content (richText s opts) = take 1997 (trim s) @ js ''...''"
      using assms by (simp add: richText_content)
    moreover from True have "hd (take 1997 (trim s) @ js ''...'') = hd (trim s)"
      by (cases "trim s") simp_all
    ultimately show ?thesis using h True by (intro trim_nonempty) auto
  next
    case False
    then show ?thesis using assms by (simp add: richText_content)
  qed
qed

lemma content_richText_blank:
  assumes "trim s = []"
  shows "trim (content (richText s opts)) = []"
  using assms
  by (simp add: richText_content trim_def trimEnd_def trimStart_def isSpace_def isWhiteSpace_def
      js_simps)

lemma clean_exercice:
  "trim (replaceLabel (js ''Exercice'') (cleanLeadingEmoji (js ''Exercice:'' @ rest))) = trim rest"
proof -
  let ?t = "js ''Exercice:'' @ trimEnd rest"
  have "trim (js ''Exercice:'' @ rest) = ?t"
    by (rule trim_append) (simp_all add: js_simps isSpace_def isWhiteSpace_def isLineTerminator_def)
  then have "cleanLeadingEmoji (js ''Exercice:'' @ rest) = ?t"
    by (simp add: cleanLeadingEmoji_def TEMPLATE_EMOJIS_def startsWith_def js_simps)
  moreover have "replaceLabel (js ''Exercice'') ?t = trimStart (trimEnd rest)"
    by (simp add: replaceLabel_def startsWithIgnoreCase_def canonicalize_def isAsciiLower_def
        isSpace_def isWhiteSpace_def isLineTerminator_def trimStart_def js_simps)
  ultimately show ?thesis by (simp add: trim_trimStart trim_trimEnd)
qed

lemma exercice_label: "richText (js ''Exercice: '') bold = styled (js ''Exercice:'') boldAnnotations"
  by (simp add: eval_defs bold_def boldAnnotations_def)

lemma exercice_title_runs:
  "richTextOr (Rich [richText (js ''Exercice: '') bold, richText t None]) options =
     styled (js ''Exercice:'') boldAnnotations # (if trim t = [] then [] else [richText t None])"
proof -
  have "trim (content (styled (js ''Exercice:'') boldAnnotations)) \<noteq> []"
    by (simp add: styled_def trim_def trimEnd_def trimStart_def isSpace_def isWhiteSpace_def
        isLineTerminator_def js_simps)
  then show ?thesis
    by (simp add: richTextOr_def toRichTextArray_def exercice_label content_richText_visible
        content_richText_blank)
qed

lemma solution_toggle:
  "toggle (Str (0xD83D # 0xDCA1 # js '' Voir la solution'')) kids
      (Some \<lparr>b_icon = None, b_color = Some (js ''green_background''), b_toggleable = None,
         b_children = None, b_parseMarkdown = None\<rparr>) =
   Toggle [plain (0xD83D # 0xDCA1 # js '' Voir la solution'')] (js ''green_background'') kids"
  by (simp add: toggle_def richTextOr_def toRichTextArray_def parseMarkdownOf_def colorOf_def
      eval_defs)

lemma literal_nonempty:
  "js ''orange_background'' \<noteq> []" "js ''green_background'' \<noteq> []"
  "js ''purple_background'' \<noteq> []" "js ''default'' \<noteq> []"
  by (simp_all add: js_simps)

text \<open>
  C7 as stated fails: the pattern is \<open>/^Exercice\s*:\s*/i\<close>, the French word, so the
  English \<open>Exercise:\<close> is not stripped; the title run of the callout is the whole input
  title, after the bold label \<open>Exercice:\<close>.
\<close>

theorem exercice_english_prefix_counterexample:
  "exercice (js ''Exercise: Add'') [] (Some (js ''function add(a,b){...}'')) =
     Callout [styled (js ''Exercice:'') boldAnnotations, plain (js ''Exercise: Add'')]
       [0x270F, 0xFE0F] (js ''orange_background'')
       (Some [Toggle [plain ([0xD83D, 0xDCA1] @ js '' Voir la solution'')] (js ''green_background'')
                [Code [plain (js ''function add(a,b){...}'')] (js ''plain text'') []]])"
proof -
  have "trim (replaceLabel (js ''Exercice'') (cleanLeadingEmoji (js ''Exercise: Add''))) =
      js ''Exercise: Add''"
    by (simp add: cleanLeadingEmoji_def TEMPLATE_EMOJIS_def startsWith_def replaceLabel_def
        startsWithIgnoreCase_def canonicalize_def isAsciiLower_def trim_def trimEnd_def
        trimStart_def isSpace_def isWhiteSpace_def isLineTerminator_def js_simps)
  moreover have "richText (js ''Exercise: Add'') None = plain (js ''Exercise: Add'')"
    by (simp add: eval_defs)
  moreover have "trim (js ''Exercise: Add'') \<noteq> []"
    by (simp add: trim_def trimEnd_def trimStart_def isSpace_def isWhiteSpace_def
        isLineTerminator_def js_simps)
  moreover have "code (trim (js ''function add(a,b){...}'')) (js ''plain text'') None =
      Code [plain (js ''function add(a,b){...}'')] (js ''plain text'') []"
    by (simp add: code_def captionOf_def eval_defs)
  ultimately show ?thesis
    by (simp add: exercice_def callout_def exercice_title_runs solution_toggle iconOf_def
        colorOf_def childrenOf_def noBuilderOptions_def literal_nonempty)
      (simp add: js_simps)
qed

text \<open>
  C7, amended.  A title that begins with the French \<open>Exercice:\<close> loses that prefix: the
  callout's runs are the bold label and the run of the rest of the title (no second run
  when the rest is blank).  When a non-empty solution is given, the last child of the
  callout is the toggle \<open>Voir la solution\<close> holding one code block, built by \<open>code\<close> from the
  trimmed solution in the language \<open>plain text\<close>.
\<close>

theorem exercice_strips_label:
  "(\<exists>kids. exercice (js ''Exercice:'' @ rest) instructions solution =
      Callout (styled (js ''Exercice:'') boldAnnotations #
                 (if trim rest = [] then [] else [richText (trim rest) None]))
        [0x270F, 0xFE0F] (js ''orange_background'') (Some kids)) \<and>
   (sol \<noteq> [] \<longrightarrow>
     (\<exists>runs bullets. exercice title instructions (Some sol) =
        Callout runs [0x270F, 0xFE0F] (js ''orange_background'')
          (Some (bullets @
            [Toggle [plain ([0xD83D, 0xDCA1] @ js '' Voir la solution'')] (js ''green_background'')
               [code (trim sol) (js ''plain text'') None]]))))"
  by (simp add: exercice_def callout_def exercice_title_runs solution_toggle iconOf_def
      colorOf_def childrenOf_def noBuilderOptions_def clean_exercice Let_def literal_nonempty)

theorem exercice_strips_label_witness:
  "(\<exists>kids. exercice (js ''Exercice: Add'') [] (Some (js ''function add(a,b){...}'')) =
      Callout [styled (js ''Exercice:'') boldAnnotations, plain (js ''Add'')]
        [0x270F, 0xFE0F] (js ''orange_background'') (Some kids)) \<and>
   js ''function add(a,b){...}'' \<noteq> [] \<and>
   (\<exists>runs bullets. exercice (js ''Exercice: Add'') [] (Some (js ''function add(a,b){...}'')) =
      Callout runs [0x270F, 0xFE0F] (js ''orange_background'')
        (Some (bullets @
          [Toggle [plain ([0xD83D, 0xDCA1] @ js '' Voir la solution'')] (js ''green_background'')
             [Code [plain (js ''function add(a,b){...}'')] (js ''plain text'') []]])))"
proof -
  have s: "js ''function add(a,b){...}'' \<noteq> []" by (simp add: js_simps)
  have c: "code (trim (js ''function add(a,b){...}'')) (js ''plain text'') None =
      Code [plain (js ''function add(a,b){...}'')] (js ''plain text'') []"
    by (simp add: code_def captionOf_def eval_defs)
  have r: "trim (js '' Add'') = js ''Add''" "richText (js ''Add'') None = plain (js ''Add'')"
    by (simp_all add: eval_defs)
  have n: "js ''Add'' \<noteq> []" by (simp add: js_simps)
  have e: "js ''Exercice: Add'' = js ''Exercice:'' @ js '' Add''" by (simp add: js_simps)
  from exercice_strips_label [where rest = "js '' Add''" and instructions = "[]"
      and solution = "Some (js ''function add(a,b){...}'')" and sol = "js ''function add(a,b){...}''"
      and title = "js ''Exercice: Add''"] s
  show ?thesis unfolding e c r by (simp add: n)
qed

section \<open>Items of unknown type\<close>

lemma unknown_type_default:
  assumes "i_type item \<notin> set knownTypes"
  shows "buildCourseBlock accepts (Item item children) =
     ofOption (paragraph_block
       (Str (orString (i_text item) (js ''[Type non reconnu: '' @ i_type item @ js '']''))) None)"
  using assms by (simp add: knownTypes_def buildCourseBlock.simps Let_def)

lemma placeholder_form:
  "js ''[Type non reconnu: '' @ t @ js '']'' = 0x5B # (js ''Type non reconnu: '' @ t) @ [0x5D]"
  by (simp add: js_simps)

text \<open>
  C4 as stated fails on the example of the specification: the placeholder is only the
  fallback of \<open>item.text\<close>, so an unknown item with the text \<open>hi\<close> compiles to the
  paragraph \<open>hi\<close>, which does not name the type; with a blank text the result is \<open>null\<close>.
\<close>

theorem unknown_type_counterexample:
  "js ''foobar'' \<notin> set knownTypes \<and>
   buildCourseBlock (\<lambda>scheme rest. True)
       (Item ((itemOfType (js ''foobar''))\<lparr>i_text := Some (js ''hi'')\<rparr>) None) =
     One (Paragraph [plain (js ''hi'')] (js ''default'') None) \<and>
   visibleText [plain (js ''hi'')] = js ''hi'' \<and>
   buildCourseBlock (\<lambda>scheme rest. True)
       (Item ((itemOfType (js ''foobar''))\<lparr>i_text := Some (js '' '')\<rparr>) None) = Null"
proof -
  have k: "js ''foobar'' \<notin> set knownTypes"
    by (simp add: knownTypes_def js_simps)
  have "paragraph_block (Str (js ''hi'')) None =
      Some (Paragraph [plain (js ''hi'')] (js ''default'') None)"
    by (simp add: paragraph_block_def toRichTextArray_def parseMarkdownOf_def colorOf_def
        childrenOf_def eval_defs)
  moreover have "paragraph_block (Str (js '' '')) None = None"
    by (simp add: paragraph_block_def toRichTextArray_def parseMarkdownOf_def eval_defs)
  moreover have "js ''hi'' \<noteq> []" "js '' '' \<noteq> []"
    by (simp_all add: js_simps)
  ultimately show ?thesis
    using k
    by (simp add: unknown_type_default itemOfType_def orString_def ofOption_def visibleText_def
        plain_def)
qed

text \<open>
  C4, amended.  For an item whose type is not in the dispatch table \<open>buildCourseBlock\<close>
  returns \<open>null\<close> or one paragraph block.  A non-blank \<open>text\<close> gives the paragraph of that
  text alone, a non-empty blank \<open>text\<close> gives \<open>null\<close>.  Without \<open>text\<close> (absent or empty)
  the result is one paragraph with at least one run, made from the placeholder
  \<open>[Type non reconnu: T]\<close>; when the type \<open>T\<close> has none of the code units \<open>* ` ~ (\<close> and at
  most 1979 code units, it is one plain run whose content is the placeholder, type
  name included.
\<close>

theorem unknown_type_placeholder:
  assumes "i_type item \<notin> set knownTypes"
  shows
   "(\<forall>text. i_text item = Some text \<and> trim text \<noteq> [] \<longrightarrow>
       buildCourseBlock accepts (Item item children) =
         One (Paragraph (parseFormattedText (trim text)) (js ''default'') None) \<and>
       parseFormattedText (trim text) \<noteq> []) \<and>
    (\<forall>text. i_text item = Some text \<and> text \<noteq> [] \<and> trim text = [] \<longrightarrow>
       buildCourseBlock accepts (Item item children) = Null) \<and>
    (i_text item = None \<or> i_text item = Some [] \<longrightarrow>
       (\<exists>rts. rts \<noteq> [] \<and>
          buildCourseBlock accepts (Item item children) =
            One (Paragraph rts (js ''default'') None)) \<and>
       (set (i_type item) \<inter> markers = {} \<and> length (i_type item) \<le> 1979 \<longrightarrow>
          buildCourseBlock accepts (Item item children) =
            One (Paragraph [plain (js ''[Type non reconnu: '' @ i_type item @ js '']'')]
                   (js ''default'') None)))"
proof (intro conjI allI impI)
  fix t
  assume "i_text item = Some t \<and> trim t \<noteq> []"
  moreover from this have "t \<noteq> []" by auto
  ultimately show "buildCourseBlock accepts (Item item children) =
         One (Paragraph (parseFormattedText (trim t)) (js ''default'') None)"
    using assms
    by (simp add: unknown_type_default orString_def paragraph_block_Str ofOption_def)
next
  fix t
  show "parseFormattedText (trim t) \<noteq> []" by (rule parseFormattedText_nonempty)
next
  fix t
  assume "i_text item = Some t \<and> t \<noteq> [] \<and> trim t = []"
  then show "buildCourseBlock accepts (Item item children) = Null"
    using assms
    by (simp add: unknown_type_default orString_def paragraph_block_Str ofOption_def)
next
  assume a: "i_text item = None \<or> i_text item = Some []"
  then have o: "orString (i_text item) x = x" for x
    by (auto simp add: orString_def)
  from paragraph_bracketed [of "js ''Type non reconnu: '' @ i_type item"]
  show "\<exists>rts. rts \<noteq> [] \<and>
          buildCourseBlock accepts (Item item children) =
            One (Paragraph rts (js ''default'') None)"
    using assms by (auto simp add: unknown_type_default o ofOption_def placeholder_form)
next
  assume a: "i_text item = None \<or> i_text item = Some []"
    and b: "set (i_type item) \<inter> markers = {} \<and> length (i_type item) \<le> 1979"
  from a have o: "orString (i_text item) x = x" for x
    by (auto simp add: orString_def)
  have "set (js ''Type non reconnu: '' @ i_type item) \<inter> markers = {}"
    using b by (simp add: markers_def js_simps)
  moreover have "length (js ''Type non reconnu: '' @ i_type item) \<le> 1998"
    using b by simp
  ultimately have "paragraph_block (Str (0x5B # (js ''Type non reconnu: '' @ i_type item) @ [0x5D])) None =
      Some (Paragraph [plain (0x5B # (js ''Type non reconnu: '' @ i_type item) @ [0x5D])]
        (js ''default'') None)"
    by (rule paragraph_bracketed_plain)
  then show "buildCourseBlock accepts (Item item children) =
            One (Paragraph [plain (js ''[Type non reconnu: '' @ i_type item @ js '']'')]
                   (js ''default'') None)"
    using assms by (simp add: unknown_type_default o ofOption_def placeholder_form)
qed

theorem unknown_type_placeholder_witness:
  "i_type (itemOfType (js ''foobar'')) \<notin> set knownTypes \<and>
   i_text (itemOfType (js ''foobar'')) = None \<and>
   buildCourseBlock (\<lambda>scheme rest. True) (Item (itemOfType (js ''foobar'')) None) =
     One (Paragraph [plain (js ''[Type non reconnu: foobar]'')] (js ''default'') None)"
proof -
  have k: "i_type (itemOfType (js ''foobar'')) \<notin> set knownTypes"
    by (simp add: knownTypes_def itemOfType_def js_simps)
  have m: "set (js ''foobar'') \<inter> markers = {}" "length (js ''foobar'') \<le> 1979"
    by (simp_all add: markers_def js_simps)
  from unknown_type_placeholder [OF k, of "\<lambda>scheme rest. True" None] m
  show ?thesis using k by (simp add: itemOfType_def js_simps)
qed

section \<open>Batches of at most 100 blocks\<close>

lemma chunkLoop_returns:
  assumes "0 < sz"
  shows "\<exists>cs. chunkLoop array sz i chunks = Some (chunks @ cs) \<and> concat cs = drop i array \<and>
     (\<forall>c\<in>set cs. 1 \<le> length c \<and> length c \<le> sz)"
proof (induction "length array - i" arbitrary: i chunks rule: less_induct)
  case less
  show ?case
  proof (cases "i < length array")
    case False
    then show ?thesis by (subst chunkLoop.simps) simp
  next
    case True
    let ?c = "slice_js array i (i + sz)"
    have c: "?c = take sz (drop i array)" by (simp add: slice_js_def)
    from True assms have "length array - (i + sz) < length array - i" by arith
    from less [OF this, of "chunks @ [?c]"]
    obtain cs where cs: "chunkLoop array sz (i + sz) (chunks @ [?c]) = Some ((chunks @ [?c]) @ cs)"
      "concat cs = drop (i + sz) array" "\<forall>c\<in>set cs. 1 \<le> length c \<and> length c \<le> sz"
      by blast
    have "chunkLoop array sz i chunks = Some (chunks @ (?c # cs))"
      using True cs(1) by (subst chunkLoop.simps) simp
    moreover have "concat (?c # cs) = drop i array"
    proof -
      have "drop (i + sz) array = drop sz (drop i array)" by (simp add: add.commute)
      with cs(2) have "concat (?c # cs) = take sz (drop i array) @ drop sz (drop i array)"
        by (simp add: c)
      then show ?thesis by (simp only: append_take_drop_id)
    qed
    moreover have "1 \<le> length ?c \<and> length ?c \<le> sz"
      using True assms by (simp add: c)
    ultimately show ?thesis using cs(3) by (intro exI [of _ "?c # cs"]) simp
  qed
qed

lemma appendChunks_all:
  assumes "\<forall>history call. client history call"
  shows "appendChunks client pageId chunks calls =
     (None, calls @ map (\<lambda>chunk. \<lparr>call_block_id = pageId, call_children = chunk\<rparr>) chunks)"
  using assms by (induction chunks arbitrary: calls) (simp_all add: Let_def)

lemma appendChunks_prefix:
  "\<exists>n. snd (appendChunks client pageId chunks calls) =
     calls @ take n (map (\<lambda>chunk. \<lparr>call_block_id = pageId, call_children = chunk\<rparr>) chunks)"
proof (induction chunks arbitrary: calls)
  case Nil
  then show ?case by simp
next
  case (Cons chunk chunks)
  let ?call = "\<lparr>call_block_id = pageId, call_children = chunk\<rparr>"
  show ?case
  proof (cases "client calls ?call")
    case True
    from Cons [of "calls @ [?call]"] obtain n where
      "snd (appendChunks client pageId chunks (calls @ [?call])) =
        (calls @ [?call]) @ take n (map (\<lambda>chunk. \<lparr>call_block_id = pageId, call_children = chunk\<rparr>) chunks)"
      by blast
    with True show ?thesis by (intro exI [of _ "Suc n"]) (simp add: Let_def)
  next
    case False
    then show ?thesis by (intro exI [of _ "Suc 0"]) (simp add: Let_def)
  qed
qed

text \<open>
  C9.  With an initialised client, \<open>appendBlocks\<close> splits the block list into chunks
  whose concatenation is the list, each of 1 to 100 blocks, and the calls it issues are,
  in order, a prefix of the calls for these chunks: all of them, with no exception, when
  every remote call resolves.  An empty list gives no chunk and no call.
\<close>

theorem appendBlocks_batches:
  "\<exists>chunks. chunkArray blocks 100 = Some chunks \<and> concat chunks = blocks \<and>
     (\<forall>chunk\<in>set chunks. 1 \<le> length chunk \<and> length chunk \<le> 100) \<and>
     (blocks = [] \<longrightarrow> chunks = []) \<and>
     (\<exists>e n. appendBlocks (Some client) pageId blocks =
        Some (e, take n (map (\<lambda>chunk. \<lparr>call_block_id = pageId, call_children = chunk\<rparr>) chunks))) \<and>
     ((\<forall>history call. client history call) \<longrightarrow>
        appendBlocks (Some client) pageId blocks =
          Some (None, map (\<lambda>chunk. \<lparr>call_block_id = pageId, call_children = chunk\<rparr>) chunks))"
proof -
  from chunkLoop_returns [of 100 blocks 0 "[]"]
  obtain cs where cs: "chunkArray blocks 100 = Some cs" "concat cs = blocks"
    "\<forall>c\<in>set cs. 1 \<le> length c \<and> length c \<le> 100"
    by (auto simp add: chunkArray_def)
  have "blocks = [] \<longrightarrow> cs = []"
    using cs(2,3) by (cases cs) auto
  moreover from appendChunks_prefix [of client pageId cs "[]"]
  have "\<exists>e n. appendBlocks (Some client) pageId blocks =
        Some (e, take n (map (\<lambda>chunk. \<lparr>call_block_id = pageId, call_children = chunk\<rparr>) cs))"
    by (simp add: appendBlocks_def cs(1)) (metis prod.collapse)
  moreover have "(\<forall>history call. client history call) \<longrightarrow>
        appendBlocks (Some client) pageId blocks =
          Some (None, map (\<lambda>chunk. \<lparr>call_block_id = pageId, call_children = chunk\<rparr>) cs)"
    by (simp add: appendBlocks_def cs(1) appendChunks_all)
  ultimately show ?thesis using cs by blast
qed

theorem appendBlocks_batches_witness:
  "appendBlocks (Some (\<lambda>history call. True)) (js ''page'') (replicate 250 Divider) =
     Some (None,
       [\<lparr>call_block_id = js ''page'', call_children = replicate 100 Divider\<rparr>,
        \<lparr>call_block_id = js ''page'', call_children = replicate 100 Divider\<rparr>,
        \<lparr>call_block_id = js ''page'', call_children = replicate 50 Divider\<rparr>]) \<and>
   appendBlocks (Some (\<lambda>history call. True)) (js ''page'') ([] :: Block list) = Some (None, [])"
proof -
  have a: "chunkArray (replicate 250 Divider) 100 =
      Some [replicate 100 Divider, replicate 100 Divider, replicate 50 Divider]"
    by (simp add: chunkArray_def chunkLoop.simps slice_js_def)
  have b: "chunkArray ([] :: Block list) 100 = Some []"
    by (simp add: chunkArray_def chunkLoop.simps)
  from appendBlocks_batches [of "replicate 250 Divider" "\<lambda>history call. True" "js ''page''"]
    appendBlocks_batches [of "[] :: Block list" "\<lambda>history call. True" "js ''page''"]
  show ?thesis by (simp add: a b)
qed

section \<open>When the validator returns\<close>

lemma validateItems_returns:
  "(\<exists>r. validateItems accepts idx items state = Inr r) \<longleftrightarrow> list_all (\<lambda>item. item \<noteq> None) items"
  by (induction accepts idx items state rule: validateItems.induct) simp_all

lemma validateItems_throws:
  "\<not> list_all (\<lambda>item. item \<noteq> None) items \<Longrightarrow> validateItems accepts idx items state = Inl TypeError"
  by (induction accepts idx items state rule: validateItems.induct) simp_all

lemma validateSection_returns:
  "(\<exists>r'. validateSection accepts idx section r = Inr r') \<longleftrightarrow> itemsPresent section"
  by (cases "sec_content section")
    (simp_all add: validateSection_def itemsPresent_def orArray_def Let_def validateItems_returns)

lemma validateSection_throws:
  "\<not> itemsPresent section \<Longrightarrow> validateSection accepts idx section r = Inl TypeError"
  by (cases "sec_content section")
    (simp_all add: validateSection_def itemsPresent_def orArray_def Let_def validateItems_throws)

lemma validateSections_returns:
  "list_all (\<lambda>s. case s of None \<Rightarrow> False | Some section \<Rightarrow> itemsPresent section) sections \<Longrightarrow>
   \<exists>r'. validateSections accepts idx sections r = Inr r'"
proof (induction accepts idx sections r rule: validateSections.induct)
  case (3 accepts idx sec sections r)
  then have "itemsPresent sec" by simp
  then obtain r' where "validateSection accepts idx sec r = Inr r'"
    using validateSection_returns by blast
  with 3 show ?case by simp
qed simp_all

lemma validateSections_throws:
  "\<not> list_all (\<lambda>s. case s of None \<Rightarrow> False | Some section \<Rightarrow> itemsPresent section) sections \<Longrightarrow>
   validateSections accepts idx sections r = Inl TypeError"
proof (induction accepts idx sections r rule: validateSections.induct)
  case (3 accepts idx sec sections r)
  show ?case
  proof (cases "itemsPresent sec")
    case False
    then show ?thesis by (simp add: validateSection_throws)
  next
    case True
    then obtain r' where r': "validateSection accepts idx sec r = Inr r'"
      using validateSection_returns by blast
    from True 3(2) have "\<not> list_all (\<lambda>s. case s of None \<Rightarrow> False
        | Some section \<Rightarrow> itemsPresent section) sections" by simp
    with 3(1) [OF r'] r' show ?thesis by simp
  qed
qed simp_all

lemma validateCourse_returns:
  assumes "withoutNull course"
  shows "\<exists>result. validateCourse accepts (Some course) = Inr result"
proof (cases "c_sections course")
  case None
  then show ?thesis by (simp add: validateCourse_def Let_def)
next
  case (Some sections)
  with assms have "list_all (\<lambda>s. case s of None \<Rightarrow> False | Some section \<Rightarrow> itemsPresent section)
      sections"
    by (simp add: withoutNull_def orArray_def)
  then obtain r where "validateSections accepts 0 sections
      (if sections = [] then pushError (js ''Au moins une section requise'')
        (if (case c_title course of None \<Rightarrow> True | Some t \<Rightarrow> t = [] \<or> length (trim t) = 0)
         then pushError (js ''Titre manquant'') \<lparr>r_errors = [], r_warnings = []\<rparr>
         else \<lparr>r_errors = [], r_warnings = []\<rparr>)
       else (if (case c_title course of None \<Rightarrow> True | Some t \<Rightarrow> t = [] \<or> length (trim t) = 0)
         then pushError (js ''Titre manquant'') \<lparr>r_errors = [], r_warnings = []\<rparr>
         else \<lparr>r_errors = [], r_warnings = []\<rparr>)) = Inr r"
    using validateSections_returns by blast
  with Some show ?thesis by (simp add: validateCourse_def Let_def)
qed

lemma validateCourse_throws:
  assumes "\<not> withoutNull course"
  shows "validateCourse accepts (Some course) = Inl TypeError"
proof (cases "c_sections course")
  case None
  with assms show ?thesis by (simp add: withoutNull_def orArray_def)
next
  case (Some sections)
  with assms have "\<not> list_all (\<lambda>s. case s of None \<Rightarrow> False | Some section \<Rightarrow> itemsPresent section)
      sections"
    by (simp add: withoutNull_def orArray_def)
  then have "validateSections accepts 0 sections r = Inl TypeError" for r
    by (rule validateSections_throws)
  with Some show ?thesis by (simp add: validateCourse_def Let_def)
qed

lemma generateRecommendations_returns:
  assumes "blockTypes stats = Some counts"
  shows "\<exists>recs. generateRecommendations (Some stats) = Inr recs \<and> recs \<noteq> []"
  using assms by (simp add: generateRecommendations_def Let_def)

text \<open>
  C8 as stated fails: \<open>validateCourse\<close> reads \<open>course.title\<close>, \<open>section.title\<close> and
  \<open>item.type\<close> without a guard, so a \<open>null\<close> course and a \<open>null\<close> item make it throw.
\<close>

theorem validateCourse_null_counterexample:
  "validateCourse (\<lambda>scheme rest. True) None = Inl TypeError \<and>
   validateCourse (\<lambda>scheme rest. True)
     (Some (emptyCourse\<lparr>c_title := Some (js ''T''),
        c_sections := Some [Some (emptySection\<lparr>sec_title := Some (js ''S''),
          sec_content := Some [None]\<rparr>)]\<rparr>)) =
     Inl TypeError \<and>
   generateRecommendations None = Inl TypeError"
  by (simp add: validateCourse_def validateSection_def generateRecommendations_def Let_def
      emptyCourse_def emptySection_def)

text \<open>
  C8, amended.  \<open>validateCourse\<close> returns a result exactly for the courses that are not
  \<open>null\<close> and have no \<open>null\<close> section and no \<open>null\<close> item, and throws a \<open>TypeError\<close> for the
  others; absent fields are read as falsy, the course without any field giving the two
  errors of a missing title and missing sections.  \<open>generateRecommendations\<close> returns a
  list that is not empty whenever the statistics have their \<open>blockTypes\<close> object, absent
  counts being read as zero, and throws a \<open>TypeError\<close> without it.
\<close>

theorem validateCourse_total_without_null:
  "(withoutNull course \<longrightarrow> (\<exists>result. validateCourse accepts (Some course) = Inr result)) \<and>
   (\<not> withoutNull course \<longrightarrow> validateCourse accepts (Some course) = Inl TypeError) \<and>
   validateCourse accepts None = Inl TypeError \<and>
   validateCourse accepts (Some emptyCourse) =
     Inr \<lparr>valid = False, errors = [js ''Titre manquant'', js ''Au moins une section requise''],
          warnings = []\<rparr> \<and>
   (blockTypes stats \<noteq> None \<longrightarrow>
      (\<exists>recs. generateRecommendations (Some stats) = Inr recs \<and> recs \<noteq> [])) \<and>
   (blockTypes stats = None \<longrightarrow> generateRecommendations (Some stats) = Inl TypeError) \<and>
   generateRecommendations None = Inl TypeError"
proof -
  have "validateCourse accepts (Some emptyCourse) =
     Inr \<lparr>valid = False, errors = [js ''Titre manquant'', js ''Au moins une section requise''],
          warnings = []\<rparr>"
    by (simp add: validateCourse_def Let_def pushError_def emptyCourse_def)
  moreover have "validateCourse accepts None = Inl TypeError"
    by (simp add: validateCourse_def)
  moreover have "generateRecommendations None = Inl TypeError"
    "blockTypes stats = None \<longrightarrow> generateRecommendations (Some stats) = Inl TypeError"
    by (simp_all add: generateRecommendations_def)
  ultimately show ?thesis
    using validateCourse_returns [of course accepts] validateCourse_throws [of course accepts]
      generateRecommendations_returns [of stats]
    by auto
qed

theorem validateCourse_total_without_null_witness:
  "withoutNull (emptyCourse\<lparr>c_sections := Some [Some emptySection]\<rparr>) \<and>
   validateCourse (\<lambda>scheme rest. True)
     (Some (emptyCourse\<lparr>c_sections := Some [Some emptySection]\<rparr>)) =
     Inr \<lparr>valid = False,
          errors = [js ''Titre manquant'', js ''Section 1: titre manquant'',
                    js ''Section 1: contenu manquant''],
          warnings = []\<rparr> \<and>
   \<not> withoutNull (emptyCourse\<lparr>c_sections := Some [None]\<rparr>) \<and>
   validateCourse (\<lambda>scheme rest. True) (Some (emptyCourse\<lparr>c_sections := Some [None]\<rparr>)) =
     Inl TypeError \<and>
   (\<exists>recs. generateRecommendations
      (Some \<lparr>totalBlocks = None, totalSections = None, blockTypes = Some (\<lambda>k. None)\<rparr>) = Inr recs \<and>
      recs \<noteq> [])"
proof -
  let ?c = "emptyCourse\<lparr>c_sections := Some [Some emptySection]\<rparr>"
  let ?d = "emptyCourse\<lparr>c_sections := Some [None]\<rparr>"
  let ?s = "\<lparr>totalBlocks = None, totalSections = None, blockTypes = Some (\<lambda>k. None)\<rparr>"
  have w: "withoutNull ?c" "\<not> withoutNull ?d"
    by (simp_all add: withoutNull_def itemsPresent_def orArray_def emptyCourse_def emptySection_def)
  have v: "validateCourse (\<lambda>scheme rest. True) (Some ?c) =
     Inr \<lparr>valid = False,
          errors = [js ''Titre manquant'', js ''Section 1: titre manquant'',
                    js ''Section 1: contenu manquant''],
          warnings = []\<rparr>"
    by (simp add: validateCourse_def validateSection_def Let_def pushError_def sectionN_def
        numberToString_def digits.simps emptyCourse_def emptySection_def js_simps)
  from validateCourse_total_without_null [of ?c "\<lambda>scheme rest. True" ?s]
    validateCourse_total_without_null [of ?d "\<lambda>scheme rest. True" ?s] w v
  show ?thesis by simp
qed

section \<open>Database or page parent\<close>

text \<open>
  C10.  Whenever the handler submits a page, the parent is a database for a \<open>parentId\<close>
  of exactly 32 code units without \<open>-\<close>, with the title under the property \<open>Name\<close> alone,
  and a page for any other \<open>parentId\<close>, with the title under \<open>title\<close> alone.
\<close>

theorem parent_by_length:
  "createCourse accepts body = CreatePage pageData \<longrightarrow>
     (\<exists>parentId title.
        c_parentId body = Some parentId \<and> c_title body = Some title \<and>
        (length parentId = 32 \<and> 0x2D \<notin> set parentId \<longrightarrow>
           pd_parent pageData = DatabaseId parentId \<and>
           pd_properties pageData (js ''Name'') = Some title \<and>
           pd_properties pageData (js ''title'') = None \<and>
           dom (pd_properties pageData) = {js ''Name''}) \<and>
        (\<not> (length parentId = 32 \<and> 0x2D \<notin> set parentId) \<longrightarrow>
           pd_parent pageData = PageId parentId \<and>
           pd_properties pageData (js ''title'') = Some title \<and>
           pd_properties pageData (js ''Name'') = None \<and>
           dom (pd_properties pageData) = {js ''title''}))"
proof
  assume a: "createCourse accepts body = CreatePage pageData"
  then obtain parentId title where b: "c_parentId body = Some parentId" "c_title body = Some title"
    by (cases "c_parentId body"; cases "c_title body")
      (auto simp add: createCourse_def orString_def split: if_splits)
  from a b have p: "pd_parent pageData = courseParent parentId"
    "pd_properties pageData = courseProperties parentId title"
    by (auto simp add: createCourse_def orString_def Let_def split: if_splits sum.splits)
  have n: "js ''title'' \<noteq> js ''Name''" by (simp add: js_simps)
  show "\<exists>parentId title.
        c_parentId body = Some parentId \<and> c_title body = Some title \<and>
        (length parentId = 32 \<and> 0x2D \<notin> set parentId \<longrightarrow>
           pd_parent pageData = DatabaseId parentId \<and>
           pd_properties pageData (js ''Name'') = Some title \<and>
           pd_properties pageData (js ''title'') = None \<and>
           dom (pd_properties pageData) = {js ''Name''}) \<and>
        (\<not> (length parentId = 32 \<and> 0x2D \<notin> set parentId) \<longrightarrow>
           pd_parent pageData = PageId parentId \<and>
           pd_properties pageData (js ''title'') = Some title \<and>
           pd_properties pageData (js ''Name'') = None \<and>
           dom (pd_properties pageData) = {js ''title''})"
    using b n by (intro exI [of _ parentId] exI [of _ title])
      (auto simp add: p courseParent_def courseProperties_def split: if_splits)
qed

lemma smallCourse_submitted:
  "parentId \<noteq> [] \<Longrightarrow> \<exists>pageData. createCourse (\<lambda>scheme rest. True) (smallCourse parentId) = CreatePage pageData"
  by (simp add: createCourse_def smallCourse_def emptyCourse_def emptySection_def orString_def
      orArray_def validateCourse_def validateSection_def validateItem_def itemOfType_def
      compileSection_def buildCourseBlock.simps asArray_def eval_defs)

theorem parent_by_length_witness:
  "(\<exists>pageData.
      createCourse (\<lambda>scheme rest. True) (smallCourse (js ''0123456789abcdef0123456789abcdef'')) =
        CreatePage pageData \<and>
      pd_parent pageData = DatabaseId (js ''0123456789abcdef0123456789abcdef'') \<and>
      pd_properties pageData (js ''Name'') = Some (js ''T'') \<and>
      pd_properties pageData (js ''title'') = None) \<and>
   (\<exists>pageData.
      createCourse (\<lambda>scheme rest. True) (smallCourse (js ''01234567-89ab-cdef-0123-456789abcdef'')) =
        CreatePage pageData \<and>
      pd_parent pageData = PageId (js ''01234567-89ab-cdef-0123-456789abcdef'') \<and>
      pd_properties pageData (js ''title'') = Some (js ''T'') \<and>
      pd_properties pageData (js ''Name'') = None)"
proof -
  let ?a = "js ''0123456789abcdef0123456789abcdef''"
  let ?b = "js ''01234567-89ab-cdef-0123-456789abcdef''"
  have ne: "?a \<noteq> []" "?b \<noteq> []" by (simp_all add: js_simps)
  from smallCourse_submitted [OF ne(1)] obtain pa where
    pa: "createCourse (\<lambda>scheme rest. True) (smallCourse ?a) = CreatePage pa" by blast
  from smallCourse_submitted [OF ne(2)] obtain pb where
    pb: "createCourse (\<lambda>scheme rest. True) (smallCourse ?b) = CreatePage pb" by blast
  have a: "length ?a = 32 \<and> 0x2D \<notin> set ?a" by (simp add: js_simps)
  have b: "\<not> (length ?b = 32 \<and> 0x2D \<notin> set ?b)" by (simp add: js_simps)
  have f: "c_parentId (smallCourse ?a) = Some ?a" "c_title (smallCourse ?a) = Some (js ''T'')"
    "c_parentId (smallCourse ?b) = Some ?b" "c_title (smallCourse ?b) = Some (js ''T'')"
    by (simp_all add: smallCourse_def emptyCourse_def)
  from parent_by_length [of "\<lambda>scheme rest. True" "smallCourse ?a" pa] pa a f
  have "pd_parent pa = DatabaseId ?a \<and> pd_properties pa (js ''Name'') = Some (js ''T'') \<and>
      pd_properties pa (js ''title'') = None"
    by auto
  moreover
  from parent_by_length [of "\<lambda>scheme rest. True" "smallCourse ?b" pb] pb b f
  have "pd_parent pb = PageId ?b \<and> pd_properties pb (js ''title'') = Some (js ''T'') \<and>
      pd_properties pb (js ''Name'') = None"
    by auto
  ultimately show ?thesis using pa pb by blast
qed

end
